theory Spec2Isabelle
  imports Main
begin

section \<open>Python values and exceptions\<close>

text \<open>
  The library works on decoded JSON documents (\<^verbatim>\<open>json.loads\<close>, \<^verbatim>\<open>xmltodict.parse\<close>):
  \<^verbatim>\<open>None\<close>, booleans, integers, strings, lists and dictionaries. A dictionary is an
  association list in insertion order, since the code reads \<^verbatim>\<open>list(d.values())[0]\<close>;
  the keys of a decoded dictionary are distinct. Real-valued JSON numbers are left out:
  the fields the resolvers read are strings and counters.
\<close>

datatype json =
    JNull
  | JBool bool
  | JInt int
  | JStr string
  | JArr "json list"
  | JObj "(string \<times> json) list"

text \<open>
  The messages of \<^verbatim>\<open>ErrorServidorCatastro\<close>, one constructor for each place that raises it:
  the description \<^verbatim>\<open>des\<close> of the service's first error, the body that is no JSON, the
  reference that belongs to several parcels ("Usa un objeto MetaParcela") and the empty body.
\<close>

datatype mensaje =
    Des json
  | NoJSON
  | VariasReferencias
  | RespuestaVacia

text \<open>
  Every exception the modelled code can raise. \<open>ValueError_sistema\<close> is the
  \<^verbatim>\<open>ValueError\<close> of an unknown reference system, \<open>ValueError_informacion\<close> the one of
  insufficient arguments, \<open>Exception_calle\<close> is \<^verbatim>\<open>Exception('La calle no existe.')\<close> and
  \<open>Exception_numero\<close> carries the house numbers the service proposes. The others are the
  interpreter's own.
\<close>

datatype error =
    ErrorServidorCatastro mensaje
  | ValueError_sistema
  | ValueError_informacion
  | Exception_calle
  | Exception_numero "json list"
  | AttributeError
  | TypeError
  | KeyError
  | IndexError
  | NameError
  | ValueError
  | JSONDecodeError
  | ExpatError

definition bind_err :: "error + 'a \<Rightarrow> ('a \<Rightarrow> error + 'b) \<Rightarrow> error + 'b" where
  "bind_err m f = (case m of Inl e \<Rightarrow> Inl e | Inr v \<Rightarrow> f v)"

text \<open>Truth value of a Python object in a condition.\<close>

fun truthy :: "json \<Rightarrow> bool" where
  "truthy JNull = False"
| "truthy (JBool b) = b"
| "truthy (JInt n) = (n \<noteq> 0)"
| "truthy (JStr s) = (s \<noteq> [])"
| "truthy (JArr xs) = (xs \<noteq> [])"
| "truthy (JObj kvs) = (kvs \<noteq> [])"

text \<open>\<^verbatim>\<open>d.get(k, default)\<close>: only a dictionary has the method.\<close>

fun py_get :: "json \<Rightarrow> string \<Rightarrow> json \<Rightarrow> error + json" where
  "py_get (JObj kvs) k d = Inr (case map_of kvs k of None \<Rightarrow> d | Some v \<Rightarrow> v)"
| "py_get _ k d = Inl AttributeError"

text \<open>A chain \<^verbatim>\<open>v.get(k1).get(k2)...\<close>, each step with the default \<^verbatim>\<open>None\<close>.\<close>

fun get_path :: "json \<Rightarrow> string list \<Rightarrow> error + json" where
  "get_path v [] = Inr v"
| "get_path v (k # ks) =
     (case py_get v k JNull of Inl e \<Rightarrow> Inl e | Inr w \<Rightarrow> get_path w ks)"

text \<open>\<^verbatim>\<open>d.values()\<close> and \<^verbatim>\<open>d.keys()\<close>.\<close>

fun py_values :: "json \<Rightarrow> error + json list" where
  "py_values (JObj kvs) = Inr (map snd kvs)"
| "py_values _ = Inl AttributeError"

fun py_keys :: "json \<Rightarrow> error + string list" where
  "py_keys (JObj kvs) = Inr (map fst kvs)"
| "py_keys _ = Inl AttributeError"

text \<open>\<^verbatim>\<open>v[k]\<close> with a string key and \<^verbatim>\<open>v[i]\<close> with a non-negative index.\<close>

fun getitem_key :: "json \<Rightarrow> string \<Rightarrow> error + json" where
  "getitem_key (JObj kvs) k = (case map_of kvs k of None \<Rightarrow> Inl KeyError | Some v \<Rightarrow> Inr v)"
| "getitem_key _ k = Inl TypeError"

fun getitem_idx :: "json \<Rightarrow> nat \<Rightarrow> error + json" where
  "getitem_idx (JArr xs) i = (if i < length xs then Inr (xs ! i) else Inl IndexError)"
| "getitem_idx (JStr s) i = (if i < length s then Inr (JStr [s ! i]) else Inl IndexError)"
| "getitem_idx (JObj kvs) i = Inl KeyError"
| "getitem_idx _ i = Inl TypeError"

text \<open>\<^verbatim>\<open>k in v\<close> for a string \<open>k\<close>: a key of a dictionary, an element of a list, a
  substring of a string; the other values are not containers.\<close>

fun is_prefix :: "string \<Rightarrow> string \<Rightarrow> bool" where
  "is_prefix [] ys = True"
| "is_prefix (x # xs) [] = False"
| "is_prefix (x # xs) (y # ys) = (x = y \<and> is_prefix xs ys)"

fun is_substring :: "string \<Rightarrow> string \<Rightarrow> bool" where
  "is_substring xs [] = (xs = [])"
| "is_substring xs (y # ys) = (is_prefix xs (y # ys) \<or> is_substring xs ys)"

fun py_in :: "string \<Rightarrow> json \<Rightarrow> error + bool" where
  "py_in k (JObj kvs) = Inr (k \<in> set (map fst kvs))"
| "py_in k (JArr xs) = Inr (JStr k \<in> set xs)"
| "py_in k (JStr s) = Inr (is_substring k s)"
| "py_in k _ = Inl TypeError"

text \<open>\<^verbatim>\<open>''.join(vs)\<close>: every element has to be a string.\<close>

fun py_join :: "json list \<Rightarrow> error + string" where
  "py_join [] = Inr []"
| "py_join (JStr s # vs) = (case py_join vs of Inl e \<Rightarrow> Inl e | Inr t \<Rightarrow> Inr (s @ t))"
| "py_join (_ # vs) = Inl TypeError"

text \<open>The expression \<^verbatim>\<open>''.join(v.values())\<close> that builds a cadastral reference from the
  components of an \<^verbatim>\<open>rc\<close> field.\<close>

definition join_values :: "json \<Rightarrow> error + json" where
  "join_values v = bind_err (py_values v) (\<lambda>vs. bind_err (py_join vs) (\<lambda>s. Inr (JStr s)))"

text \<open>\<^verbatim>\<open>v > 1\<close> and \<^verbatim>\<open>range(v)\<close>: integers (and booleans, which are integers) only.\<close>

fun py_gt_1 :: "json \<Rightarrow> error + bool" where
  "py_gt_1 (JInt n) = Inr (n > 1)"
| "py_gt_1 (JBool b) = Inr False"
| "py_gt_1 _ = Inl TypeError"

fun py_range :: "json \<Rightarrow> error + nat list" where
  "py_range (JInt n) = Inr [0..<nat n]"
| "py_range (JBool b) = Inr [0..<(if b then 1 else 0)]"
| "py_range _ = Inl TypeError"

text \<open>Iterating over a value in a \<^verbatim>\<open>for\<close> loop: the elements of a list, the keys of a
  dictionary, the characters of a string.\<close>

fun py_iter :: "json \<Rightarrow> error + json list" where
  "py_iter (JArr xs) = Inr xs"
| "py_iter (JObj kvs) = Inr (map (\<lambda>kv. JStr (fst kv)) kvs)"
| "py_iter (JStr s) = Inr (map (\<lambda>c. JStr [c]) s)"
| "py_iter _ = Inl TypeError"

text \<open>\<^verbatim>\<open>s.split(' ')\<close>: cut at every single space; only a string has the method.\<close>

fun split_sp :: "string \<Rightarrow> string list" where
  "split_sp [] = [[]]"
| "split_sp (c # cs) =
     (if c = CHR '' '' then [] # split_sp cs
      else (case split_sp cs of [] \<Rightarrow> [[c]] | w # ws \<Rightarrow> (c # w) # ws))"

fun py_split :: "json \<Rightarrow> error + string list" where
  "py_split (JStr s) = Inr (split_sp s)"
| "py_split _ = Inl AttributeError"

definition nth_err :: "'a list \<Rightarrow> nat \<Rightarrow> error + 'a" where
  "nth_err xs i = (if i < length xs then Inr (xs ! i) else Inl IndexError)"

section \<open>The error classifier\<close>

text \<open>
  \<^verbatim>\<open>comprobar_errores\<close> of \<^verbatim>\<open>utils/utils.py\<close>. The exception built by
  \<^verbatim>\<open>lanzar_excepcion(mensaje_error=m)\<close> is \<open>ErrorServidorCatastro (Des m)\<close>. The function
  returns \<^verbatim>\<open>True\<close> inside the test of a non-empty envelope and falls off its end
  otherwise, which returns \<^verbatim>\<open>None\<close>.
\<close>

definition lanzar_excepcion :: "json \<Rightarrow> error" where
  "lanzar_excepcion mensaje_error = ErrorServidorCatastro (Des mensaje_error)"

definition comprobar_errores :: "json \<Rightarrow> error + json" where
  "comprobar_errores respuesta =
     bind_err (py_values respuesta) (\<lambda>vals.
       if length vals > 0 then
         (let primero = vals ! 0 in
          bind_err (if primero \<noteq> JNull
                    then bind_err (py_keys primero) (\<lambda>ks. Inr (''lerr'' \<in> set ks))
                    else Inr False) (\<lambda>hay_lerr.
            if hay_lerr then
              bind_err (getitem_key primero ''lerr'') (\<lambda>lerr.
              bind_err (py_in ''err'' lerr) (\<lambda>anidado.
                if anidado then
                  bind_err (getitem_key lerr ''err'') (\<lambda>errs.
                  bind_err (getitem_idx errs 0) (\<lambda>e0.
                  bind_err (getitem_key e0 ''des'') (\<lambda>des.
                    Inl (lanzar_excepcion des))))
                else
                  bind_err (getitem_idx lerr 0) (\<lambda>e0.
                  bind_err (getitem_key e0 ''des'') (\<lambda>des.
                    Inl (lanzar_excepcion des)))))
            else Inr (JBool True)))
       else Inr JNull)"


fun map_err :: "('a \<Rightarrow> error + 'b) \<Rightarrow> 'a list \<Rightarrow> error + 'b list" where
  "map_err f [] = Inr []"
| "map_err f (x # xs) =
     (case f x of Inl e \<Rightarrow> Inl e
      | Inr y \<Rightarrow> (case map_err f xs of Inl e \<Rightarrow> Inl e | Inr ys \<Rightarrow> Inr (y # ys)))"

section \<open>The services and the built-ins\<close>

text \<open>
  A response of \<^verbatim>\<open>requests.get\<close>: its status and its body. The code asks three things
  of a body: whether it is empty (\<^verbatim>\<open>len(req.content) > 0\<close>), whether \<^verbatim>\<open>json.loads\<close>
  decodes it, and the decoded document.
\<close>

datatype contenido =
    Vacio
  | Ilegible
  | Decodificado json

record respuesta =
  status_code :: int
  content :: contenido

text \<open>The street record built by \<^verbatim>\<open>Calle(municipio=Municipio(...), ...)\<close>, with the four
  attributes the address lookup reads.\<close>

record info_calle =
  ic_provincia :: json
  ic_municipio :: json
  ic_tipo_via :: json
  ic_calle :: json

text \<open>
  What the code takes from outside, as parameters: the three lookups of the street
  directory (\<^verbatim>\<open>Consulta_DNPRC\<close>, \<^verbatim>\<open>Consulta_DNPPP\<close>, \<^verbatim>\<open>Consulta_DNPLOC\<close>) as
  functions of their request parameters, the final URL of the sketch request, the feature
  request \<^verbatim>\<open>GetParcel\<close> already parsed by \<^verbatim>\<open>xmltodict.parse\<close> (which can raise), the
  street collaborator \<^verbatim>\<open>Calle\<close> (it raises, or gives an object that is true or false in a
  condition: \<open>None\<close> is the false one), and the helpers that are not in the sources at hand:
  \<^verbatim>\<open>listar_sistemas_referencia()\<close>, and \<open>distancia p q\<close> for
  \<^verbatim>\<open>distancia_entre_dos_puntos_geograficos(lat_lon_from_coords_dict(p), lat_lon_from_coords_dict(q))\<close>.
  Python's \<^verbatim>\<open>float(v)\<close> and \<^verbatim>\<open>str(v)\<close> are parameters too; \<open>'f\<close> is the type of
  floating-point numbers, of which only \<open>0\<close> and \<open>+\<close> are used.
\<close>

record 'f entorno =
  consulta_dnprc :: "json \<Rightarrow> respuesta"
  consulta_dnppp :: "json \<Rightarrow> json \<Rightarrow> json \<Rightarrow> json \<Rightarrow> respuesta"
  consulta_dnploc :: "json \<Rightarrow> json \<Rightarrow> json \<Rightarrow> json \<Rightarrow> json \<Rightarrow> respuesta"
  croquis_datos :: "json \<Rightarrow> json"
  get_parcel :: "json \<Rightarrow> json \<Rightarrow> error + json"
  calle_de :: "json \<Rightarrow> json \<Rightarrow> json \<Rightarrow> json \<Rightarrow> error + info_calle option"
  listar_sistemas_referencia :: "string list"
  distancia :: "string \<times> string \<Rightarrow> string \<times> string \<Rightarrow> 'f"
  float_de :: "json \<Rightarrow> error + 'f"
  str_de :: "json \<Rightarrow> string"

text \<open>\<^verbatim>\<open>sum(xs)\<close>: starts from \<open>0\<close> and adds from the left.\<close>

definition suma :: "'f::{zero,plus} list \<Rightarrow> 'f" where
  "suma xs = foldl (\<lambda>acc x. acc + x) 0 xs"

section \<open>ParcelaCatastral\<close>

text \<open>
  The object under construction: every attribute is \<open>None\<close> until the code assigns it.
  \<open>tipo\<close> is the string \<^verbatim>\<open>'Urbano'\<close> or the string for rustic land; a region is the pair
  of its \<^verbatim>\<open>descripcion\<close> and \<^verbatim>\<open>superficie\<close>, a point the pair of its \<^verbatim>\<open>x\<close> and
  \<^verbatim>\<open>y\<close>.
\<close>

datatype tipo_parcela = Urbano | Rustico

record 'f parcela_catastral =
  rc :: "json option"
  provincia :: "json option"
  municipio :: "json option"
  poligono :: "json option"
  parcela :: "json option"
  calle :: "json option"
  numero :: "json option"
  url_croquis :: "json option"
  tipo :: "tipo_parcela option"
  antiguedad :: "json option"
  uso :: "json option"
  nombre_paraje :: "json option"
  regiones :: "(json \<times> json) list option"
  centroide :: "(string \<times> string) option"
  geometria :: "(string \<times> string) list option"
  superficie_total :: "'f option"
  superficie_construida :: "'f option"
  superficie :: "'f option"

definition objeto_vacio :: "'f parcela_catastral" where
  "objeto_vacio =
     \<lparr>rc = None, provincia = None, municipio = None, poligono = None, parcela = None,
      calle = None, numero = None, url_croquis = None, tipo = None, antiguedad = None,
      uso = None, nombre_paraje = None, regiones = None, centroide = None,
      geometria = None, superficie_total = None, superficie_construida = None,
      superficie = None\<rparr>"

text \<open>Reading an attribute that was never assigned raises \<^verbatim>\<open>AttributeError\<close>.\<close>

definition atributo :: "'a option \<Rightarrow> error + 'a" where
  "atributo a = (case a of None \<Rightarrow> Inl AttributeError | Some v \<Rightarrow> Inr v)"

text \<open>One step of the loop of \<^verbatim>\<open>__create_regions\<close>.\<close>

fun region_de :: "tipo_parcela \<Rightarrow> json \<Rightarrow> error + json \<times> json" where
  "region_de Rustico region =
     bind_err (get_path region [''dspr'', ''dcc'']) (\<lambda>descripcion.
     bind_err (get_path region [''dspr'', ''ssp'']) (\<lambda>superf.
       Inr (descripcion, superf)))"
| "region_de Urbano region =
     bind_err (py_get region ''lcd'' JNull) (\<lambda>descripcion.
     bind_err (get_path region [''dfcons'', ''stl'']) (\<lambda>superf.
       Inr (descripcion, superf)))"

definition create_regions ::
  "'f parcela_catastral \<Rightarrow> json \<Rightarrow> error + 'f parcela_catastral" where
  "create_regions self info_cadastre =
     bind_err (atributo (tipo self)) (\<lambda>t.
     bind_err (py_values info_cadastre) (\<lambda>vals.
     bind_err (nth_err vals 0) (\<lambda>primero.
     bind_err (get_path primero
                 [''bico'', (case t of Urbano \<Rightarrow> ''lcons'' | Rustico \<Rightarrow> ''lspr'')]) (\<lambda>iterator.
     bind_err (py_iter iterator) (\<lambda>rs.
     bind_err (map_err (region_de t) rs) (\<lambda>regs.
       Inr (self\<lparr>regiones := Some regs\<rparr>)))))))"

definition ruta_parcela :: "string list" where
  "ruta_parcela = [''FeatureCollection'', ''member'', ''cp:CadastralParcel'']"

definition ruta_posList :: "string list" where
  "ruta_posList =
     ruta_parcela @ [''cp:geometry'', ''gml:MultiSurface'', ''gml:surfaceMember'',
       ''gml:Surface'', ''gml:patches'', ''gml:PolygonPatch'', ''gml:exterior'',
       ''gml:LinearRing'', ''gml:posList'', ''#text'']"

definition create_geometry ::
  "'f entorno \<Rightarrow> 'f parcela_catastral \<Rightarrow> json \<Rightarrow> error + 'f parcela_catastral" where
  "create_geometry e self projection =
     bind_err (atributo (rc self)) (\<lambda>refcat.
     bind_err (get_parcel e refcat projection) (\<lambda>geometry.
     bind_err (get_path geometry
                 (ruta_parcela @ [''cp:referencePoint'', ''gml:Point'', ''gml:pos''])) (\<lambda>pos.
     bind_err (py_split pos) (\<lambda>geoposition.
     bind_err (nth_err geoposition 1) (\<lambda>x.
     bind_err (nth_err geoposition 0) (\<lambda>y.
     bind_err (get_path geometry ruta_posList) (\<lambda>texto.
     bind_err (py_split texto) (\<lambda>parcel_geometry.
     bind_err (get_path geometry (ruta_parcela @ [''cp:areaValue'', ''#text''])) (\<lambda>area.
     bind_err (float_de e area) (\<lambda>total.
       Inr (self\<lparr>centroide := Some (x, y),
                 geometria := Some (map (\<lambda>idx. (parcel_geometry ! (2 * idx + 1),
                                                  parcel_geometry ! (2 * idx)))
                                      [0..<length parcel_geometry div 2]),
                 superficie_total := Some total\<rparr>)))))))))))"

text \<open>The ambiguity counter \<^verbatim>\<open>info.get(clave, {}).get("control", {}).get("cudnp", 1)\<close>.\<close>

definition leer_cudnp :: "json \<Rightarrow> string \<Rightarrow> error + json" where
  "leer_cudnp info_cadastre clave =
     bind_err (py_get info_cadastre clave (JObj [])) (\<lambda>r.
     bind_err (py_get r ''control'' (JObj [])) (\<lambda>c.
       py_get c ''cudnp'' (JInt 1)))"

text \<open>The reference \<^verbatim>\<open>''.join(info.get(clave).get('bico').get('bi').get('idbi').get('rc').values())\<close>
  of the direct shape.\<close>

definition rc_de_bico :: "json \<Rightarrow> string \<Rightarrow> error + json" where
  "rc_de_bico info_cadastre clave =
     bind_err (get_path info_cadastre [clave, ''bico'', ''bi'', ''idbi'', ''rc'']) join_values"

text \<open>The reference number \<open>idx\<close> of the umbrella list:
  \<^verbatim>\<open>''.join(info.get(clave).get('lrcdnp').get('rcdnp')[idx].get('rc').values())\<close>.\<close>

definition rc_de_lrcdnp :: "json \<Rightarrow> string \<Rightarrow> nat \<Rightarrow> error + json" where
  "rc_de_lrcdnp info_cadastre clave idx =
     bind_err (get_path info_cadastre [clave, ''lrcdnp'', ''rcdnp'']) (\<lambda>l.
     bind_err (getitem_idx l idx) (\<lambda>item.
     bind_err (py_get item ''rc'' JNull) join_values))"

definition ruta_bi :: "string list" where
  "ruta_bi = [''consulta_dnprcResult'', ''bico'', ''bi'']"

definition ruta_dir :: "string list" where
  "ruta_dir = ruta_bi @ [''dt'', ''locs'', ''lous'', ''lourb'', ''dir'']"

definition ruta_lorus :: "string list" where
  "ruta_lorus = ruta_bi @ [''dt'', ''locs'', ''lors'', ''lorus'']"

text \<open>The variant-specific attributes (lines 117 to 125).\<close>

fun campos_tipo ::
  "'f entorno \<Rightarrow> 'f parcela_catastral \<Rightarrow> json \<Rightarrow> tipo_parcela \<Rightarrow> error + 'f parcela_catastral" where
  "campos_tipo e self info_cadastre Urbano =
     bind_err (get_path info_cadastre (ruta_dir @ [''tv''])) (\<lambda>tv.
     bind_err (get_path info_cadastre (ruta_dir @ [''nv''])) (\<lambda>nv.
     bind_err (get_path info_cadastre (ruta_dir @ [''pnp''])) (\<lambda>pnp.
     bind_err (get_path info_cadastre (ruta_bi @ [''debi'', ''ant''])) (\<lambda>ant.
     bind_err (get_path info_cadastre (ruta_bi @ [''debi'', ''luso''])) (\<lambda>luso.
       Inr (self\<lparr>calle := Some (JStr (str_de e tv @ '' '' @ str_de e nv)),
                 numero := Some pnp, antiguedad := Some ant, uso := Some luso\<rparr>))))))"
| "campos_tipo e self info_cadastre Rustico =
     bind_err (get_path info_cadastre (ruta_lorus @ [''cpp'', ''cpa''])) (\<lambda>cpa.
     bind_err (get_path info_cadastre (ruta_lorus @ [''cpp'', ''cpo''])) (\<lambda>cpo.
     bind_err (get_path info_cadastre (ruta_lorus @ [''npa''])) (\<lambda>npa.
       Inr (self\<lparr>parcela := Some cpa, poligono := Some cpo, nombre_paraje := Some npa\<rparr>))))"

text \<open>The two sums of lines 130 and 131, each over the regions in order.\<close>

definition suma_superficies :: "'f::{zero,plus} entorno \<Rightarrow> (json \<times> json) list \<Rightarrow> error + 'f" where
  "suma_superficies e regs =
     bind_err (map_err (\<lambda>region. float_de e (snd region)) regs) (\<lambda>fs. Inr (suma fs))"

text \<open>The \<^verbatim>\<open>else\<close> branch of \<^verbatim>\<open>__create_from_rc\<close> (lines 112 to 131): the counter is at
  most one.\<close>

definition resolver ::
  "'f::{zero,plus} entorno \<Rightarrow> 'f parcela_catastral \<Rightarrow> json \<Rightarrow> json \<Rightarrow> error + 'f parcela_catastral" where
  "resolver e self info_cadastre projection =
     bind_err (rc_de_bico info_cadastre ''consulta_dnprcResult'') (\<lambda>nueva_rc.
     bind_err (get_path info_cadastre (ruta_bi @ [''dt'', ''nm''])) (\<lambda>nm.
     bind_err (get_path info_cadastre (ruta_bi @ [''dt'', ''np''])) (\<lambda>np.
     bind_err (get_path info_cadastre (ruta_bi @ [''idbi'', ''cn''])) (\<lambda>cn.
       (let t = (if cn = JStr ''RU'' then Rustico else Urbano);
            self1 = self\<lparr>rc := Some nueva_rc, url_croquis := Some (croquis_datos e nueva_rc),
                         municipio := Some nm, provincia := Some np, tipo := Some t\<rparr>
        in bind_err (campos_tipo e self1 info_cadastre t) (\<lambda>self2.
           bind_err (create_regions self2 info_cadastre) (\<lambda>self3.
           bind_err (create_geometry e self3 projection) (\<lambda>self4.
           bind_err (atributo (regiones self4)) (\<lambda>regs.
           bind_err (suma_superficies e regs) (\<lambda>s1.
           bind_err (suma_superficies e regs) (\<lambda>s2.
             Inr (self4\<lparr>superficie_construida := Some s1, superficie := Some s2\<rparr>))))))))))))"

text \<open>
  \<^verbatim>\<open>ParcelaCatastral.__create_from_rc\<close>. When \<^verbatim>\<open>comprobar_errores\<close> returns a false
  value there is no \<^verbatim>\<open>else\<close>: the method returns and leaves the object as it was.
\<close>

definition ParcelaCatastral_create_from_rc ::
  "'f::{zero,plus} entorno \<Rightarrow> 'f parcela_catastral \<Rightarrow> json \<Rightarrow> json \<Rightarrow> error + 'f parcela_catastral" where
  "ParcelaCatastral_create_from_rc e self rc0 projection =
     (case content (consulta_dnprc e rc0) of
        Vacio \<Rightarrow> Inl (ErrorServidorCatastro RespuestaVacia)
      | Ilegible \<Rightarrow> Inl (ErrorServidorCatastro NoJSON)
      | Decodificado info_cadastre \<Rightarrow>
          bind_err (comprobar_errores info_cadastre) (\<lambda>ok.
            if truthy ok then
              bind_err (leer_cudnp info_cadastre ''consulta_dnprcResult'') (\<lambda>cudnp.
              bind_err (py_gt_1 cudnp) (\<lambda>varias.
                if varias then Inl (ErrorServidorCatastro VariasReferencias)
                else resolver e self info_cadastre projection))
            else Inr self))"

text \<open>
  \<^verbatim>\<open>__create_from_parcel\<close> and \<^verbatim>\<open>__create_from_address\<close> name their response
  \<^verbatim>\<open>req\<close> and read \<^verbatim>\<open>req1.content\<close>. No variable \<^verbatim>\<open>req1\<close> exists in these methods
  or in the module, so evaluating the name raises \<^verbatim>\<open>NameError\<close>.
\<close>

definition req1 :: "error + respuesta" where
  "req1 = Inl NameError"

text \<open>\<^verbatim>\<open>json.loads\<close> on a body.\<close>

fun json_loads :: "contenido \<Rightarrow> error + json" where
  "json_loads (Decodificado j) = Inr j"
| "json_loads _ = Inl JSONDecodeError"

text \<open>
  \<^verbatim>\<open>ParcelaCatastral.__create_from_parcel\<close>. The handler of a body that is no JSON
  formats \<^verbatim>\<open>req1.content\<close> into its message.
\<close>

definition ParcelaCatastral_create_from_parcel ::
  "'f::{zero,plus} entorno \<Rightarrow> 'f parcela_catastral \<Rightarrow> json \<Rightarrow> json \<Rightarrow> json \<Rightarrow> json \<Rightarrow> json
     \<Rightarrow> error + 'f parcela_catastral" where
  "ParcelaCatastral_create_from_parcel e self prov mun pol par projection =
     (case content (consulta_dnppp e prov mun pol par) of
        Vacio \<Rightarrow> Inl (ErrorServidorCatastro RespuestaVacia)
      | Ilegible \<Rightarrow> bind_err req1 (\<lambda>r1. Inl (ErrorServidorCatastro NoJSON))
      | Decodificado info_cadastre \<Rightarrow>
          bind_err (comprobar_errores info_cadastre) (\<lambda>ok.
            if truthy ok then
              bind_err (leer_cudnp info_cadastre ''consulta_dnpppResult'') (\<lambda>cudnp.
              bind_err (py_gt_1 cudnp) (\<lambda>varias.
                if varias then Inl (ErrorServidorCatastro VariasReferencias)
                else
                  bind_err (rc_de_bico info_cadastre ''consulta_dnpppResult'') (\<lambda>nueva_rc.
                    ParcelaCatastral_create_from_rc e (self\<lparr>rc := Some nueva_rc\<rparr>)
                      nueva_rc projection)))
            else Inr self))"

text \<open>
  \<^verbatim>\<open>ParcelaCatastral.__create_from_address\<close>. The condition of line 181 is a chain of
  \<^verbatim>\<open>and\<close>: the body is decoded by \<^verbatim>\<open>req.json()\<close> only when the status is 200 and the
  body is not empty. The branch taken then decodes \<^verbatim>\<open>req1.content\<close> under a bare
  \<^verbatim>\<open>except\<close> whose handler reads \<^verbatim>\<open>req1.content\<close> again.
\<close>

definition numeros_validos :: "json \<Rightarrow> error + json list" where
  "numeros_validos info_cadastre =
     bind_err (get_path info_cadastre [''consulta_dnplocResult'', ''numerero'', ''nump'']) (\<lambda>nump.
     bind_err (py_iter nump) (\<lambda>nums.
       map_err (\<lambda>num. get_path num [''num'', ''pnp'']) nums))"

definition ParcelaCatastral_create_from_address ::
  "'f::{zero,plus} entorno \<Rightarrow> 'f parcela_catastral \<Rightarrow> json \<Rightarrow> json \<Rightarrow> json \<Rightarrow> json \<Rightarrow> json
     \<Rightarrow> json \<Rightarrow> error + 'f parcela_catastral" where
  "ParcelaCatastral_create_from_address e self prov mun tipo_via nombre_calle num projection =
     bind_err (calle_de e prov mun tipo_via nombre_calle) (\<lambda>info_calle.
       case info_calle of
         None \<Rightarrow> Inl Exception_calle
       | Some ic \<Rightarrow>
          (let req = consulta_dnploc e (ic_provincia ic) (ic_municipio ic) (ic_tipo_via ic)
                       (ic_calle ic) num
           in
           bind_err (if status_code req = 200 \<and> content req \<noteq> Vacio
                     then bind_err (json_loads (content req)) (\<lambda>j.
                          bind_err (comprobar_errores j) (\<lambda>ok. Inr (truthy ok)))
                     else Inr False) (\<lambda>correcta.
             if correcta then
               bind_err (case bind_err req1 (\<lambda>r1. json_loads (content r1)) of
                           Inl _ \<Rightarrow> bind_err req1 (\<lambda>r1. Inl (ErrorServidorCatastro NoJSON))
                         | Inr j \<Rightarrow> Inr j) (\<lambda>info_cadastre.
               bind_err (leer_cudnp info_cadastre ''consulta_dnplocResult'') (\<lambda>cudnp.
               bind_err (py_gt_1 cudnp) (\<lambda>varias.
                 if varias then Inl (ErrorServidorCatastro VariasReferencias)
                 else
                   bind_err (py_get info_cadastre ''consulta_dnplocResult'' JNull) (\<lambda>r.
                   bind_err (py_in ''lrcdnp'' r) (\<lambda>hay_lrcdnp.
                   bind_err (if hay_lrcdnp
                             then bind_err (rc_de_lrcdnp info_cadastre ''consulta_dnplocResult'' 0)
                                    (\<lambda>nueva_rc. Inr (self\<lparr>rc := Some nueva_rc\<rparr>))
                             else bind_err (py_in ''bico'' r) (\<lambda>hay_bico.
                                  if hay_bico
                                  then bind_err (rc_de_bico info_cadastre ''consulta_dnplocResult'')
                                         (\<lambda>nueva_rc. Inr (self\<lparr>rc := Some nueva_rc\<rparr>))
                                  else Inr self)) (\<lambda>self1.
                   bind_err (atributo (rc self1)) (\<lambda>la_rc.
                     ParcelaCatastral_create_from_rc e self1 la_rc projection)))))))
             else
               bind_err (json_loads (content req)) (\<lambda>j.
               bind_err (py_get j ''consulta_dnplocResult'' JNull) (\<lambda>r.
               bind_err (py_in ''lerr'' r) (\<lambda>hay_lerr.
               bind_err (if hay_lerr
                         then bind_err (getitem_key j ''consulta_dnplocResult'') (\<lambda>r2.
                              bind_err (getitem_key r2 ''lerr'') (\<lambda>lerr.
                              bind_err (getitem_idx lerr 0) (\<lambda>e0.
                              bind_err (getitem_key e0 ''cod'') (\<lambda>cod.
                                Inr (cod = JStr ''43'')))))
                         else Inr False) (\<lambda>numero_inexistente.
                 if numero_inexistente
                 then bind_err (numeros_validos j) (\<lambda>ns. Inl (Exception_numero ns))
                 else Inl (ErrorServidorCatastro RespuestaVacia))))))))"

text \<open>
  The arguments of the constructor; \<^verbatim>\<open>None\<close> is the default of the first eight and
  \<^verbatim>\<open>'EPSG:4326'\<close> the default of \<^verbatim>\<open>projection\<close>.
\<close>

record argumentos =
  arg_rc :: json
  arg_provincia :: json
  arg_municipio :: json
  arg_poligono :: json
  arg_parcela :: json
  arg_tipo_via :: json
  arg_calle :: json
  arg_numero :: json
  arg_projection :: json

definition sin_argumentos :: argumentos where
  "sin_argumentos =
     \<lparr>arg_rc = JNull, arg_provincia = JNull, arg_municipio = JNull, arg_poligono = JNull,
      arg_parcela = JNull, arg_tipo_via = JNull, arg_calle = JNull, arg_numero = JNull,
      arg_projection = JStr ''EPSG:4326''\<rparr>"

text \<open>\<^verbatim>\<open>ParcelaCatastral.__init__\<close>.\<close>

definition ParcelaCatastral_init ::
  "'f::{zero,plus} entorno \<Rightarrow> argumentos \<Rightarrow> error + 'f parcela_catastral" where
  "ParcelaCatastral_init e a =
     (if arg_projection a \<notin> set (map JStr (listar_sistemas_referencia e))
      then Inl ValueError_sistema
      else if truthy (arg_rc a) then
        ParcelaCatastral_create_from_rc e (objeto_vacio\<lparr>rc := Some (arg_rc a)\<rparr>)
          (arg_rc a) (arg_projection a)
      else if truthy (arg_provincia a) \<and> truthy (arg_municipio a) \<and> truthy (arg_poligono a)
              \<and> truthy (arg_parcela a) then
        ParcelaCatastral_create_from_parcel e
          (objeto_vacio\<lparr>provincia := Some (arg_provincia a), municipio := Some (arg_municipio a),
                         poligono := Some (arg_poligono a), parcela := Some (arg_parcela a)\<rparr>)
          (arg_provincia a) (arg_municipio a) (arg_poligono a) (arg_parcela a) (arg_projection a)
      else if truthy (arg_provincia a) \<and> truthy (arg_municipio a) \<and> truthy (arg_tipo_via a)
              \<and> truthy (arg_calle a) \<and> truthy (arg_numero a) then
        ParcelaCatastral_create_from_address e
          (objeto_vacio\<lparr>provincia := Some (arg_provincia a), municipio := Some (arg_municipio a),
                         calle := Some (arg_calle a), numero := Some (arg_numero a)\<rparr>)
          (arg_provincia a) (arg_municipio a) (arg_tipo_via a) (arg_calle a) (arg_numero a)
          (arg_projection a)
      else Inl ValueError_informacion)"

text \<open>The properties \<^verbatim>\<open>distancias_aristas\<close> and \<^verbatim>\<open>perimetro\<close>.\<close>

definition distancias_aristas ::
  "'f entorno \<Rightarrow> 'f parcela_catastral \<Rightarrow> error + 'f list option" where
  "distancias_aristas e self =
     bind_err (atributo (geometria self)) (\<lambda>g.
       if g \<noteq> [] then
         Inr (Some (map (\<lambda>idx. distancia e (g ! (if idx = 0 then length g - 1 else idx - 1))
                                             (g ! idx))
                      [0..<length g]))
       else Inr None)"

definition perimetro ::
  "'f::{zero,plus} entorno \<Rightarrow> 'f parcela_catastral \<Rightarrow> error + 'f option" where
  "perimetro e self =
     bind_err (distancias_aristas e self) (\<lambda>distancias.
       case distancias of
         None \<Rightarrow> Inr None
       | Some ds \<Rightarrow> if ds \<noteq> [] then Inr (Some (suma ds)) else Inr None)"

section \<open>MetaParcela\<close>

record 'f meta_parcela =
  mp_rc :: "json option"
  mp_provincia :: "json option"
  mp_municipio :: "json option"
  mp_poligono :: "json option"
  mp_parcela :: "json option"
  mp_calle :: "json option"
  mp_numero :: "json option"
  parcelas :: "'f parcela_catastral list option"

definition meta_vacia :: "'f meta_parcela" where
  "meta_vacia =
     \<lparr>mp_rc = None, mp_provincia = None, mp_municipio = None, mp_poligono = None,
      mp_parcela = None, mp_calle = None, mp_numero = None, parcelas = None\<rparr>"

text \<open>\<^verbatim>\<open>ParcelaCatastral(rc=rc)\<close>: the other arguments keep their defaults.\<close>

definition ParcelaCatastral_rc :: "'f::{zero,plus} entorno \<Rightarrow> json \<Rightarrow> error + 'f parcela_catastral" where
  "ParcelaCatastral_rc e r = ParcelaCatastral_init e (sin_argumentos\<lparr>arg_rc := r\<rparr>)"

text \<open>
  The loop of \<^verbatim>\<open>__create_from_parcel\<close> and \<^verbatim>\<open>__create_from_address\<close> (lines 543 to 545
  and 574 to 576): each turn extracts a reference and appends the parcel built from it.
\<close>

fun resolver_cada ::
  "'f::{zero,plus} entorno \<Rightarrow> json \<Rightarrow> string \<Rightarrow> nat list \<Rightarrow> error + 'f parcela_catastral list" where
  "resolver_cada e info_cadastre clave [] = Inr []"
| "resolver_cada e info_cadastre clave (idx # idxs) =
     (case rc_de_lrcdnp info_cadastre clave idx of
        Inl err \<Rightarrow> Inl err
      | Inr r \<Rightarrow>
         (case ParcelaCatastral_rc e r of
            Inl err \<Rightarrow> Inl err
          | Inr p \<Rightarrow>
             (case resolver_cada e info_cadastre clave idxs of
                Inl err \<Rightarrow> Inl err
              | Inr ps \<Rightarrow> Inr (p # ps))))"

text \<open>
  \<^verbatim>\<open>MetaParcela.__create_from_rc\<close>. The loop of lines 522 and 523 only assigns the
  variable \<^verbatim>\<open>rc\<close>; the \<^verbatim>\<open>append\<close> of line 524 stands after the loop, at the
  indentation of the \<^verbatim>\<open>for\<close>, and runs once with the last value of \<^verbatim>\<open>rc\<close> (the
  argument itself when the loop has no turn). \<^verbatim>\<open>json.loads\<close> is not guarded here.
\<close>

definition MetaParcela_create_from_rc ::
  "'f::{zero,plus} entorno \<Rightarrow> 'f meta_parcela \<Rightarrow> json \<Rightarrow> error + 'f meta_parcela" where
  "MetaParcela_create_from_rc e self rc0 =
     (case content (consulta_dnprc e rc0) of
        Vacio \<Rightarrow> Inl (ErrorServidorCatastro RespuestaVacia)
      | c \<Rightarrow>
          bind_err (json_loads c) (\<lambda>info_cadastre.
          bind_err (comprobar_errores info_cadastre) (\<lambda>ok.
            if truthy ok then
              bind_err (leer_cudnp info_cadastre ''consulta_dnprcResult'') (\<lambda>num_parcelas.
              bind_err (py_range num_parcelas) (\<lambda>idxs.
              bind_err (map_err (rc_de_lrcdnp info_cadastre ''consulta_dnprcResult'') idxs) (\<lambda>rcs.
              bind_err (ParcelaCatastral_rc e (if rcs = [] then rc0 else last rcs)) (\<lambda>p.
                Inr (self\<lparr>parcelas := Some [p]\<rparr>)))))
            else Inr self)))"

text \<open>\<^verbatim>\<open>MetaParcela.__create_from_parcel\<close>.\<close>

definition MetaParcela_create_from_parcel ::
  "'f::{zero,plus} entorno \<Rightarrow> 'f meta_parcela \<Rightarrow> json \<Rightarrow> json \<Rightarrow> json \<Rightarrow> json
     \<Rightarrow> error + 'f meta_parcela" where
  "MetaParcela_create_from_parcel e self prov mun pol par =
     (case content (consulta_dnppp e prov mun pol par) of
        Vacio \<Rightarrow> Inl (ErrorServidorCatastro RespuestaVacia)
      | c \<Rightarrow>
          bind_err (json_loads c) (\<lambda>info_cadastre.
          bind_err (comprobar_errores info_cadastre) (\<lambda>ok.
            if truthy ok then
              bind_err (leer_cudnp info_cadastre ''consulta_dnpppResult'') (\<lambda>num_parcelas.
              bind_err (py_range num_parcelas) (\<lambda>idxs.
              bind_err (resolver_cada e info_cadastre ''consulta_dnpppResult'' idxs) (\<lambda>ps.
                Inr (self\<lparr>parcelas := Some ps\<rparr>))))
            else Inr self)))"

text \<open>\<^verbatim>\<open>MetaParcela.__create_from_address\<close>.\<close>

definition MetaParcela_create_from_address ::
  "'f::{zero,plus} entorno \<Rightarrow> 'f meta_parcela \<Rightarrow> json \<Rightarrow> json \<Rightarrow> json \<Rightarrow> json \<Rightarrow> json
     \<Rightarrow> error + 'f meta_parcela" where
  "MetaParcela_create_from_address e self prov mun tipo_via nombre_calle num =
     bind_err (calle_de e prov mun tipo_via nombre_calle) (\<lambda>info_calle.
       case info_calle of
         None \<Rightarrow> Inl Exception_calle
       | Some ic \<Rightarrow>
          (let req = consulta_dnploc e (ic_provincia ic) (ic_municipio ic) (ic_tipo_via ic)
                       (ic_calle ic) num
           in
           bind_err (if status_code req = 200 \<and> content req \<noteq> Vacio
                     then bind_err (json_loads (content req)) (\<lambda>j.
                          bind_err (comprobar_errores j) (\<lambda>ok. Inr (truthy ok)))
                     else Inr False) (\<lambda>correcta.
             if correcta then
               bind_err (json_loads (content req)) (\<lambda>info_cadastre.
               bind_err (leer_cudnp info_cadastre ''consulta_dnplocResult'') (\<lambda>num_parcelas.
               bind_err (py_range num_parcelas) (\<lambda>idxs.
               bind_err (resolver_cada e info_cadastre ''consulta_dnplocResult'' idxs) (\<lambda>ps.
                 Inr (self\<lparr>parcelas := Some ps\<rparr>)))))
             else Inl (ErrorServidorCatastro RespuestaVacia))))"

text \<open>\<^verbatim>\<open>MetaParcela.__init__\<close>: the eight arguments of the lookup, and no \<^verbatim>\<open>projection\<close>
  (the field \<open>arg_projection\<close> is not read).\<close>

definition MetaParcela_init ::
  "'f::{zero,plus} entorno \<Rightarrow> argumentos \<Rightarrow> error + 'f meta_parcela" where
  "MetaParcela_init e a =
     (if truthy (arg_rc a) then
        MetaParcela_create_from_rc e (meta_vacia\<lparr>mp_rc := Some (arg_rc a)\<rparr>) (arg_rc a)
      else if truthy (arg_provincia a) \<and> truthy (arg_municipio a) \<and> truthy (arg_poligono a)
              \<and> truthy (arg_parcela a) then
        MetaParcela_create_from_parcel e
          (meta_vacia\<lparr>mp_provincia := Some (arg_provincia a), mp_municipio := Some (arg_municipio a),
                       mp_poligono := Some (arg_poligono a), mp_parcela := Some (arg_parcela a)\<rparr>)
          (arg_provincia a) (arg_municipio a) (arg_poligono a) (arg_parcela a)
      else if truthy (arg_provincia a) \<and> truthy (arg_municipio a) \<and> truthy (arg_tipo_via a)
              \<and> truthy (arg_calle a) \<and> truthy (arg_numero a) then
        MetaParcela_create_from_address e
          (meta_vacia\<lparr>mp_provincia := Some (arg_provincia a), mp_municipio := Some (arg_municipio a),
                       mp_calle := Some (arg_calle a), mp_numero := Some (arg_numero a)\<rparr>)
          (arg_provincia a) (arg_municipio a) (arg_tipo_via a) (arg_calle a) (arg_numero a)
      else Inl ValueError_informacion)"

section \<open>Calling the constructors with keyword arguments\<close>







section \<open>An example service\<close>

text \<open>
  A small service on which the resolvers run to the end: an urban and a rustic record in
  the shape of the street directory's answers, a reference \<^verbatim>\<open>ALIAS\<close> whose record names
  another reference, an umbrella reference \<^verbatim>\<open>META\<close> with two members, a reference
  \<^verbatim>\<open>VACIA\<close> answered by the empty document \<^verbatim>\<open>{}\<close>, and an error list for everything
  else. Floating-point numbers are integers here: \<open>float_ejemplo\<close> is \<^verbatim>\<open>float\<close> on
  integers, booleans and strings of decimal digits, \<open>str_ejemplo\<close> is \<^verbatim>\<open>str\<close> on strings,
  \<^verbatim>\<open>None\<close> and booleans (the example has no other value at these places), and the distance
  of two points is the sum of the differences of their coordinates. The ring of the urban
  parcel has four points; the position list of the rustic one is the single number
  \<^verbatim>\<open>0\<close>, which makes no pair: its ring is empty.
\<close>

definition rc_urbana :: json where
  "rc_urbana =
     JObj [(''pc1'', JStr ''1541506''), (''pc2'', JStr ''VK4714B''), (''car'', JStr ''0002''),
           (''cc1'', JStr ''P''), (''cc2'', JStr ''K'')]"

definition rc_rustica :: json where
  "rc_rustica =
     JObj [(''pc1'', JStr ''28067A0''), (''pc2'', JStr ''2300149''), (''car'', JStr ''0000''),
           (''cc1'', JStr ''F''), (''cc2'', JStr ''J'')]"

definition bico_urbano :: "json \<Rightarrow> json" where
  "bico_urbano rcv =
     JObj [(''bi'', JObj [
              (''idbi'', JObj [(''cn'', JStr ''UR''), (''rc'', rcv)]),
              (''dt'', JObj [(''np'', JStr ''MADRID''), (''nm'', JStr ''MADRID''),
                 (''locs'', JObj [(''lous'', JObj [(''lourb'', JObj [(''dir'',
                    JObj [(''tv'', JStr ''CL''), (''nv'', JStr ''MAYOR''),
                          (''pnp'', JStr ''1'')])])])])]),
              (''debi'', JObj [(''luso'', JStr ''Residencial''), (''ant'', JStr ''1950'')])]),
           (''lcons'', JArr [
              JObj [(''lcd'', JStr ''VIVIENDA''), (''dfcons'', JObj [(''stl'', JStr ''30'')])],
              JObj [(''lcd'', JStr ''ALMACEN''), (''dfcons'', JObj [(''stl'', JStr ''9'')])]])]"

definition bico_rustico :: "json \<Rightarrow> json" where
  "bico_rustico rcv =
     JObj [(''bi'', JObj [
              (''idbi'', JObj [(''cn'', JStr ''RU''), (''rc'', rcv)]),
              (''dt'', JObj [(''np'', JStr ''MADRID''), (''nm'', JStr ''GUADALIX''),
                 (''locs'', JObj [(''lors'', JObj [(''lorus'', JObj [
                    (''cpp'', JObj [(''cpo'', JStr ''23''), (''cpa'', JStr ''149'')]),
                    (''npa'', JStr ''DEHESA'')])])])])]),
           (''lspr'', JArr [
              JObj [(''dspr'', JObj [(''dcc'', JStr ''PASTOS''), (''ssp'', JStr ''439732'')])]])]"

definition lista_rc :: json where
  "lista_rc = JObj [(''rcdnp'', JArr [JObj [(''rc'', rc_urbana)], JObj [(''rc'', rc_rustica)]])]"

definition control :: "int \<Rightarrow> json" where
  "control n = JObj [(''cudnp'', JInt n)]"

definition lista_errores :: "string \<Rightarrow> string \<Rightarrow> json" where
  "lista_errores cod des = JArr [JObj [(''cod'', JStr cod), (''des'', JStr des)]]"

definition correcta :: "json \<Rightarrow> respuesta" where
  "correcta j = \<lparr>status_code = 200, content = Decodificado j\<rparr>"

definition consulta_dnprc_ejemplo :: "json \<Rightarrow> respuesta" where
  "consulta_dnprc_ejemplo r =
     (if r = JStr ''1541506VK4714B0002PK'' then
        correcta (JObj [(''consulta_dnprcResult'',
          JObj [(''control'', control 1), (''bico'', bico_urbano rc_urbana)])])
      else if r = JStr ''28067A023001490000FJ'' then
        correcta (JObj [(''consulta_dnprcResult'',
          JObj [(''control'', control 1), (''bico'', bico_rustico rc_rustica)])])
      else if r = JStr ''ALIAS'' then
        correcta (JObj [(''consulta_dnprcResult'',
          JObj [(''control'', control 1), (''bico'', bico_urbano rc_rustica)])])
      else if r = JStr ''META'' then
        correcta (JObj [(''consulta_dnprcResult'',
          JObj [(''control'', control 2), (''lrcdnp'', lista_rc)])])
      else if r = JStr ''VACIA'' then correcta (JObj [])
      else
        correcta (JObj [(''consulta_dnprcResult'',
          JObj [(''control'', JObj [(''cuerr'', JInt 1)]),
                (''lerr'', lista_errores ''5'' ''NO EXISTE NINGUN INMUEBLE'')])]))"

definition consulta_dnppp_ejemplo :: "json \<Rightarrow> json \<Rightarrow> json \<Rightarrow> json \<Rightarrow> respuesta" where
  "consulta_dnppp_ejemplo prov mun pol par =
     (if pol = JStr ''23'' \<and> par = JStr ''149'' then
        correcta (JObj [(''consulta_dnpppResult'',
          JObj [(''control'', control 1), (''bico'', bico_rustico rc_rustica)])])
      else if pol = JStr ''1'' \<and> par = JStr ''1'' then
        correcta (JObj [(''consulta_dnpppResult'',
          JObj [(''control'', control 1), (''bico'', bico_urbano rc_urbana)])])
      else if pol = JStr ''7'' then
        correcta (JObj [(''consulta_dnpppResult'',
          JObj [(''control'', control 2), (''lrcdnp'', lista_rc)])])
      else
        correcta (JObj [(''consulta_dnpppResult'',
          JObj [(''control'', JObj [(''cuerr'', JInt 1)]),
                (''lerr'', lista_errores ''17'' ''NO EXISTE LA PARCELA'')])]))"

definition consulta_dnploc_ejemplo :: "json \<Rightarrow> json \<Rightarrow> json \<Rightarrow> json \<Rightarrow> json \<Rightarrow> respuesta" where
  "consulta_dnploc_ejemplo prov mun tv nv num =
     (if num = JStr ''1'' then
        correcta (JObj [(''consulta_dnplocResult'',
          JObj [(''control'', control 1), (''bico'', bico_urbano rc_urbana)])])
      else if num = JStr ''2'' then
        correcta (JObj [(''consulta_dnplocResult'',
          JObj [(''control'', control 2), (''lrcdnp'', lista_rc)])])
      else if num = JStr ''3'' then
        correcta (JObj [(''consulta_dnplocResult'',
          JObj [(''lrcdnp'', lista_rc), (''bico'', bico_rustico rc_rustica)])])
      else
        correcta (JObj [(''consulta_dnplocResult'',
          JObj [(''control'', JObj [(''cuerr'', JInt 1)]),
                (''lerr'', lista_errores ''43'' ''EL NUMERO NO EXISTE''),
                (''numerero'', JObj [(''nump'',
                   JArr [JObj [(''num'', JObj [(''pnp'', JStr ''1'')])]])])])]))"

definition geometria_ejemplo :: "string \<Rightarrow> json" where
  "geometria_ejemplo posList =
     JObj [(''FeatureCollection'', JObj [(''member'', JObj [(''cp:CadastralParcel'', JObj [
        (''cp:areaValue'', JObj [(''@uom'', JStr ''m2''), (''#text'', JStr ''12'')]),
        (''cp:geometry'', JObj [(''gml:MultiSurface'', JObj [(''gml:surfaceMember'',
           JObj [(''gml:Surface'', JObj [(''gml:patches'', JObj [(''gml:PolygonPatch'',
             JObj [(''gml:exterior'', JObj [(''gml:LinearRing'', JObj [(''gml:posList'',
               JObj [(''@srsDimension'', JStr ''2''),
                     (''#text'', JStr posList)])])])])])])])])]),
        (''cp:referencePoint'', JObj [(''gml:Point'', JObj [(''gml:pos'', JStr ''2 3'')])])])])])]"

definition get_parcel_ejemplo :: "json \<Rightarrow> json \<Rightarrow> error + json" where
  "get_parcel_ejemplo r projection =
     (if r = JStr ''1541506VK4714B0002PK'' then Inr (geometria_ejemplo ''0 0 0 4 6 4 6 0'')
      else if r = JStr ''28067A023001490000FJ'' then Inr (geometria_ejemplo ''0'')
      else Inl ExpatError)"

fun digitos :: "string \<Rightarrow> int \<Rightarrow> int option" where
  "digitos [] acc = Some acc"
| "digitos (c # cs) acc =
     (if (48::int) \<le> of_char c \<and> (of_char c :: int) \<le> 57
      then digitos cs (10 * acc + (of_char c - 48)) else None)"

fun float_ejemplo :: "json \<Rightarrow> error + int" where
  "float_ejemplo (JInt n) = Inr n"
| "float_ejemplo (JBool b) = Inr (if b then 1 else 0)"
| "float_ejemplo (JStr s) =
     (if s = [] then Inl ValueError
      else (case digitos s 0 of None \<Rightarrow> Inl ValueError | Some n \<Rightarrow> Inr n))"
| "float_ejemplo _ = Inl TypeError"

fun str_ejemplo :: "json \<Rightarrow> string" where
  "str_ejemplo (JStr s) = s"
| "str_ejemplo (JBool b) = (if b then ''True'' else ''False'')"
| "str_ejemplo _ = ''None''"

definition coordenada :: "string \<Rightarrow> int" where
  "coordenada s = (case digitos s 0 of None \<Rightarrow> 0 | Some n \<Rightarrow> n)"

definition distancia_ejemplo :: "string \<times> string \<Rightarrow> string \<times> string \<Rightarrow> int" where
  "distancia_ejemplo p q =
     \<bar>coordenada (fst p) - coordenada (fst q)\<bar> + \<bar>coordenada (snd p) - coordenada (snd q)\<bar>"

definition entorno_ejemplo :: "int entorno" where
  "entorno_ejemplo =
     \<lparr>consulta_dnprc = consulta_dnprc_ejemplo,
      consulta_dnppp = consulta_dnppp_ejemplo,
      consulta_dnploc = consulta_dnploc_ejemplo,
      croquis_datos = (\<lambda>r. JStr ''https://www1.sedecatastro.gob.es/croquis''),
      get_parcel = get_parcel_ejemplo,
      calle_de = (\<lambda>prov mun tv nv. Inr (Some \<lparr>ic_provincia = prov, ic_municipio = mun,
                                               ic_tipo_via = tv, ic_calle = nv\<rparr>)),
      listar_sistemas_referencia = [''EPSG:4326'', ''EPSG:25830''],
      distancia = distancia_ejemplo,
      float_de = float_ejemplo,
      str_de = str_ejemplo\<rparr>"

text \<open>The parcels the example service resolves the two references to.\<close>

definition parcela_urbana :: "int parcela_catastral" where
  "parcela_urbana =
     \<lparr>rc = Some (JStr ''1541506VK4714B0002PK''), provincia = Some (JStr ''MADRID''),
      municipio = Some (JStr ''MADRID''), poligono = None, parcela = None,
      calle = Some (JStr ''CL MAYOR''), numero = Some (JStr ''1''),
      url_croquis = Some (JStr ''https://www1.sedecatastro.gob.es/croquis''),
      tipo = Some Urbano, antiguedad = Some (JStr ''1950''), uso = Some (JStr ''Residencial''),
      nombre_paraje = None,
      regiones = Some [(JStr ''VIVIENDA'', JStr ''30''), (JStr ''ALMACEN'', JStr ''9'')],
      centroide = Some (''3'', ''2''),
      geometria = Some [(''0'', ''0''), (''4'', ''0''), (''4'', ''6''), (''0'', ''6'')],
      superficie_total = Some 12, superficie_construida = Some 39, superficie = Some 39\<rparr>"

definition parcela_rustica :: "int parcela_catastral" where
  "parcela_rustica =
     \<lparr>rc = Some (JStr ''28067A023001490000FJ''), provincia = Some (JStr ''MADRID''),
      municipio = Some (JStr ''GUADALIX''), poligono = Some (JStr ''23''),
      parcela = Some (JStr ''149''), calle = None, numero = None,
      url_croquis = Some (JStr ''https://www1.sedecatastro.gob.es/croquis''),
      tipo = Some Rustico, antiguedad = None, uso = None,
      nombre_paraje = Some (JStr ''DEHESA''),
      regiones = Some [(JStr ''PASTOS'', JStr ''439732'')],
      centroide = Some (''3'', ''2''), geometria = Some [],
      superficie_total = Some 12, superficie_construida = Some 439732,
      superficie = Some 439732\<rparr>"

definition por_rc :: "string \<Rightarrow> argumentos" where
  "por_rc r = sin_argumentos\<lparr>arg_rc := JStr r\<rparr>"

definition por_parcela :: "string \<Rightarrow> string \<Rightarrow> argumentos" where
  "por_parcela pol par =
     sin_argumentos\<lparr>arg_provincia := JStr ''MADRID'', arg_municipio := JStr ''MADRID'',
                    arg_poligono := JStr pol, arg_parcela := JStr par\<rparr>"

definition por_direccion :: "string \<Rightarrow> argumentos" where
  "por_direccion num =
     sin_argumentos\<lparr>arg_provincia := JStr ''MADRID'', arg_municipio := JStr ''MADRID'',
                    arg_tipo_via := JStr ''CL'', arg_calle := JStr ''MAYOR'',
                    arg_numero := JStr num\<rparr>"


section \<open>Properties\<close>

subsection \<open>The error monad\<close>

lemma bind_err_Inl [simp]: "bind_err (Inl e) f = Inl e"
  by (simp add: bind_err_def)

lemma bind_err_Inr [simp]: "bind_err (Inr v) f = f v"
  by (simp add: bind_err_def)

lemma bind_err_eq_Inr: "bind_err m f = Inr v \<longleftrightarrow> (\<exists>x. m = Inr x \<and> f x = Inr v)"
  by (cases m) simp_all

lemma bind_err_isl: "(\<And>x. isl (f x)) \<Longrightarrow> isl (bind_err m f)"
  by (cases m) simp_all

subsection \<open>The error classifier\<close>

text \<open>Once the first value has the key \<^verbatim>\<open>lerr\<close>, every path of the classifier ends in a
  \<^verbatim>\<open>raise\<close> or in an exception of a subscript.\<close>

lemma lanzar_siempre:
  "isl (bind_err (getitem_key primero ''lerr'') (\<lambda>lerr.
        bind_err (py_in ''err'' lerr) (\<lambda>anidado.
          if anidado then
            bind_err (getitem_key lerr ''err'') (\<lambda>errs.
            bind_err (getitem_idx errs 0) (\<lambda>e0.
            bind_err (getitem_key e0 ''des'') (\<lambda>des.
              Inl (lanzar_excepcion des))))
          else
            bind_err (getitem_idx lerr 0) (\<lambda>e0.
            bind_err (getitem_key e0 ''des'') (\<lambda>des.
              Inl (lanzar_excepcion des))))))"
  by (intro bind_err_isl) (simp add: bind_err_isl)

text \<open>
  The classifier case by case. It returns \<^verbatim>\<open>None\<close> for the empty envelope and
  \<^verbatim>\<open>True\<close> for an envelope whose first value is \<^verbatim>\<open>None\<close> or a mapping without
  \<^verbatim>\<open>lerr\<close>. When the first value is a mapping with \<^verbatim>\<open>lerr\<close> it never returns. When
  the first entry of the error list is a mapping with \<^verbatim>\<open>des\<close>, the exception is the
  classified failure with that description, read from the nested list \<^verbatim>\<open>lerr['err']\<close>
  when \<^verbatim>\<open>lerr\<close> has the key \<^verbatim>\<open>err\<close> and from the flat list \<^verbatim>\<open>lerr\<close> otherwise; an
  empty error list or an entry without \<^verbatim>\<open>des\<close> ends in the exception of the subscript
  (\<^verbatim>\<open>IndexError\<close>, \<^verbatim>\<open>KeyError\<close>) instead.
\<close>

lemma comprobar_errores_clasifica:
  "comprobar_errores (JObj []) = Inr JNull \<and>
   comprobar_errores (JObj ((k, JNull) # kvs)) = Inr (JBool True) \<and>
   (''lerr'' \<notin> set (map fst d) \<longrightarrow>
      comprobar_errores (JObj ((k, JObj d) # kvs)) = Inr (JBool True)) \<and>
   (''lerr'' \<in> set (map fst d) \<longrightarrow>
      isl (comprobar_errores (JObj ((k, JObj d) # kvs)))) \<and>
   (map_of d ''lerr'' = Some (JObj l) \<and> map_of l ''err'' = Some (JArr (JObj x # xs))
      \<and> map_of x ''des'' = Some m \<longrightarrow>
      comprobar_errores (JObj ((k, JObj d) # kvs)) = Inl (ErrorServidorCatastro (Des m))) \<and>
   (map_of d ''lerr'' = Some (JArr (JObj x # xs)) \<and> JStr ''err'' \<notin> set xs
      \<and> map_of x ''des'' = Some m \<longrightarrow>
      comprobar_errores (JObj ((k, JObj d) # kvs)) = Inl (ErrorServidorCatastro (Des m)))"
proof (intro conjI impI)
  show "comprobar_errores (JObj []) = Inr JNull"
    by (simp add: comprobar_errores_def)
  show "comprobar_errores (JObj ((k, JNull) # kvs)) = Inr (JBool True)"
    by (simp add: comprobar_errores_def)
  show "comprobar_errores (JObj ((k, JObj d) # kvs)) = Inr (JBool True)"
    if "''lerr'' \<notin> set (map fst d)"
    using that by (simp add: comprobar_errores_def)
  show "isl (comprobar_errores (JObj ((k, JObj d) # kvs)))"
    if "''lerr'' \<in> set (map fst d)"
    using that lanzar_siempre [of "JObj d"] by (simp add: comprobar_errores_def)
  show "comprobar_errores (JObj ((k, JObj d) # kvs)) = Inl (ErrorServidorCatastro (Des m))"
    if h: "map_of d ''lerr'' = Some (JObj l) \<and> map_of l ''err'' = Some (JArr (JObj x # xs))
      \<and> map_of x ''des'' = Some m"
  proof -
    have "''lerr'' \<in> set (map fst d)" "''err'' \<in> set (map fst l)"
      using h by (auto dest!: map_of_SomeD intro: rev_image_eqI)
    then show ?thesis
      using h by (simp add: comprobar_errores_def lanzar_excepcion_def)
  qed
  show "comprobar_errores (JObj ((k, JObj d) # kvs)) = Inl (ErrorServidorCatastro (Des m))"
    if h: "map_of d ''lerr'' = Some (JArr (JObj x # xs)) \<and> JStr ''err'' \<notin> set xs
      \<and> map_of x ''des'' = Some m"
  proof -
    have "''lerr'' \<in> set (map fst d)"
      using h by (auto dest!: map_of_SomeD intro: rev_image_eqI)
    then show ?thesis
      using h by (simp add: comprobar_errores_def lanzar_excepcion_def)
  qed
qed

text \<open>The classifier on four concrete envelopes.\<close>

lemma comprobar_errores_ejemplos:
  "comprobar_errores (JObj [(''r'', JObj [(''control'', JInt 1)])]) = Inr (JBool True) \<and>
   isl (comprobar_errores (JObj [(''r'', JObj [(''lerr'', JInt 1)])])) \<and>
   comprobar_errores (JObj [(''r'', JObj [(''lerr'', JObj [(''err'',
       JArr [JObj [(''cod'', JStr ''5''), (''des'', JStr ''NO EXISTE'')]])])])])
     = Inl (ErrorServidorCatastro (Des (JStr ''NO EXISTE''))) \<and>
   comprobar_errores (JObj [(''r'', JObj [(''lerr'',
       JArr [JObj [(''cod'', JStr ''5''), (''des'', JStr ''NO EXISTE'')]])])])
     = Inl (ErrorServidorCatastro (Des (JStr ''NO EXISTE'')))"
  using comprobar_errores_clasifica [of "''r''" "[]" "[(''control'', JInt 1)]"]
        comprobar_errores_clasifica [of "''r''" "[]" "[(''lerr'', JInt 1)]"]
        comprobar_errores_clasifica [of "''r''" "[]" "[(''lerr'', JObj [(''err'',
       JArr [JObj [(''cod'', JStr ''5''), (''des'', JStr ''NO EXISTE'')]])])]"
          "[(''err'', JArr [JObj [(''cod'', JStr ''5''), (''des'', JStr ''NO EXISTE'')]])]"
          "[(''cod'', JStr ''5''), (''des'', JStr ''NO EXISTE'')]" "[]" "JStr ''NO EXISTE''"]
        comprobar_errores_clasifica [of "''r''" "[]" "[(''lerr'',
       JArr [JObj [(''cod'', JStr ''5''), (''des'', JStr ''NO EXISTE'')]])]" _
          "[(''cod'', JStr ''5''), (''des'', JStr ''NO EXISTE'')]" "[]" "JStr ''NO EXISTE''"]
  by simp

text \<open>
  Claim C4 (the code departs from it). The claim, like the docstring of the function
  ("bool: True si no se encuentran errores"), has the classifier return true for an
  envelope without errors, the empty one included. On \<^verbatim>\<open>{}\<close> the test
  \<^verbatim>\<open>len(list(respuesta.values())) > 0\<close> fails, the \<^verbatim>\<open>return True\<close> inside it is
  skipped and the function returns \<^verbatim>\<open>None\<close>, a false value.
\<close>

theorem comprobar_errores_vacio:
  "comprobar_errores (JObj []) = Inr JNull \<and> \<not> truthy JNull
   \<and> comprobar_errores (JObj []) \<noteq> Inr (JBool True)"
  by (simp add: comprobar_errores_def)

subsection \<open>What the constructors return\<close>

lemma atributo_eq_Inr: "atributo a = Inr v \<longleftrightarrow> a = Some v"
  by (cases a) (simp_all add: atributo_def)

lemma create_geometry_Inr:
  assumes "create_geometry e s projection = Inr s'"
  shows "\<exists>c g t. s' = s\<lparr>centroide := Some c, geometria := Some g, superficie_total := Some t\<rparr>"
  using assms unfolding create_geometry_def bind_err_eq_Inr by blast

lemma create_regions_Inr:
  assumes "create_regions s info = Inr s'"
  shows "\<exists>regs. s' = s\<lparr>regiones := Some regs\<rparr>"
  using assms unfolding create_regions_def bind_err_eq_Inr by blast

lemma campos_tipo_Urbano_Inr:
  assumes "campos_tipo e s info Urbano = Inr s'"
  shows "\<exists>c n a u. s' = s\<lparr>calle := Some c, numero := Some n, antiguedad := Some a, uso := Some u\<rparr>"
  using assms unfolding campos_tipo.simps bind_err_eq_Inr by blast

lemma campos_tipo_Rustico_Inr:
  assumes "campos_tipo e s info Rustico = Inr s'"
  shows "\<exists>pa po n. s' = s\<lparr>parcela := Some pa, poligono := Some po, nombre_paraje := Some n\<rparr>"
  using assms unfolding campos_tipo.simps bind_err_eq_Inr by blast

lemma suma_superficies_Inr:
  "suma_superficies e regs = Inr v \<longleftrightarrow>
     (\<exists>fs. map_err (\<lambda>region. float_de e (snd region)) regs = Inr fs \<and> v = suma fs)"
  unfolding suma_superficies_def bind_err_eq_Inr by auto

lemma resolver_Inr:
  assumes "resolver e s info projection = Inr p"
  shows "\<exists>nueva_rc nm np cn t s2 regs c g tot fs.
           rc_de_bico info ''consulta_dnprcResult'' = Inr nueva_rc
         \<and> get_path info (ruta_bi @ [''idbi'', ''cn'']) = Inr cn
         \<and> t = (if cn = JStr ''RU'' then Rustico else Urbano)
         \<and> campos_tipo e (s\<lparr>rc := Some nueva_rc, url_croquis := Some (croquis_datos e nueva_rc),
                               municipio := Some nm, provincia := Some np, tipo := Some t\<rparr>)
              info t = Inr s2
         \<and> map_err (\<lambda>region. float_de e (snd region)) regs = Inr fs
         \<and> p = s2\<lparr>regiones := Some regs, centroide := Some c, geometria := Some g,
                   superficie_total := Some tot, superficie_construida := Some (suma fs),
                   superficie := Some (suma fs)\<rparr>"
proof -
  from assms obtain nueva_rc nm np cn s2 s3 s4 regs s1v s2v where
    a: "rc_de_bico info ''consulta_dnprcResult'' = Inr nueva_rc"
    and b: "get_path info (ruta_bi @ [''idbi'', ''cn'']) = Inr cn"
    and c: "campos_tipo e (s\<lparr>rc := Some nueva_rc, url_croquis := Some (croquis_datos e nueva_rc),
                               municipio := Some nm, provincia := Some np,
                               tipo := Some (if cn = JStr ''RU'' then Rustico else Urbano)\<rparr>)
              info (if cn = JStr ''RU'' then Rustico else Urbano) = Inr s2"
    and d: "create_regions s2 info = Inr s3"
    and f: "create_geometry e s3 projection = Inr s4"
    and g: "atributo (regiones s4) = Inr regs"
    and h: "suma_superficies e regs = Inr s1v" "suma_superficies e regs = Inr s2v"
    and i: "p = s4\<lparr>superficie_construida := Some s1v, superficie := Some s2v\<rparr>"
    unfolding resolver_def bind_err_eq_Inr Let_def by blast
  from d obtain regs' where d': "s3 = s2\<lparr>regiones := Some regs'\<rparr>"
    using create_regions_Inr by blast
  from f obtain c0 g0 t0 where f': "s4 = s3\<lparr>centroide := Some c0, geometria := Some g0, superficie_total := Some t0\<rparr>"
    using create_geometry_Inr by blast
  from g d' f' have r: "regs = regs'" by (simp add: atributo_eq_Inr)
  from h obtain fs where fs: "map_err (\<lambda>region. float_de e (snd region)) regs = Inr fs"
     "s1v = suma fs" "s2v = suma fs"
    by (auto simp: suma_superficies_Inr)
  show ?thesis
    using a b c fs i d' f' r by (intro exI conjI) (assumption | rule refl | simp)+
qed

text \<open>What a parcel that went through \<open>resolver\<close> looks like.\<close>

lemma resolver_resuelta:
  assumes "resolver e s info projection = Inr p"
  shows "(\<exists>nueva_rc. rc_de_bico info ''consulta_dnprcResult'' = Inr nueva_rc \<and> rc p = Some nueva_rc)"
    and "\<exists>regs fs. regiones p = Some regs
           \<and> map_err (\<lambda>region. float_de e (snd region)) regs = Inr fs
           \<and> superficie_construida p = Some (suma fs) \<and> superficie p = Some (suma fs)"
    and "\<exists>g. geometria p = Some g"
    and "tipo p = Some Urbano \<and> calle p \<noteq> None \<and> numero p \<noteq> None \<and> antiguedad p \<noteq> None
           \<and> uso p \<noteq> None \<and> poligono p = poligono s \<and> parcela p = parcela s
           \<and> nombre_paraje p = nombre_paraje s
         \<or> tipo p = Some Rustico \<and> poligono p \<noteq> None \<and> parcela p \<noteq> None
           \<and> nombre_paraje p \<noteq> None \<and> calle p = calle s \<and> numero p = numero s
           \<and> antiguedad p = antiguedad s \<and> uso p = uso s"
proof -
  from resolver_Inr [OF assms] obtain nueva_rc nm np cn t s2 regs c g tot fs where
    a: "rc_de_bico info ''consulta_dnprcResult'' = Inr nueva_rc"
    and c: "campos_tipo e (s\<lparr>rc := Some nueva_rc, url_croquis := Some (croquis_datos e nueva_rc),
                               municipio := Some nm, provincia := Some np, tipo := Some t\<rparr>)
              info t = Inr s2"
    and fs: "map_err (\<lambda>region. float_de e (snd region)) regs = Inr fs"
    and p: "p = s2\<lparr>regiones := Some regs, centroide := Some c, geometria := Some g,
                   superficie_total := Some tot, superficie_construida := Some (suma fs),
                   superficie := Some (suma fs)\<rparr>"
    by blast
  have s2: "rc s2 = Some nueva_rc \<and> tipo s2 = Some t"
    using c by (cases t) (auto simp del: campos_tipo.simps dest!: campos_tipo_Urbano_Inr campos_tipo_Rustico_Inr)
  show "\<exists>nueva_rc. rc_de_bico info ''consulta_dnprcResult'' = Inr nueva_rc \<and> rc p = Some nueva_rc"
    using a s2 p by simp
  show "\<exists>regs fs. regiones p = Some regs
           \<and> map_err (\<lambda>region. float_de e (snd region)) regs = Inr fs
           \<and> superficie_construida p = Some (suma fs) \<and> superficie p = Some (suma fs)"
    using fs p by simp
  show "\<exists>g. geometria p = Some g"
    using p by simp
  show "tipo p = Some Urbano \<and> calle p \<noteq> None \<and> numero p \<noteq> None \<and> antiguedad p \<noteq> None
           \<and> uso p \<noteq> None \<and> poligono p = poligono s \<and> parcela p = parcela s
           \<and> nombre_paraje p = nombre_paraje s
         \<or> tipo p = Some Rustico \<and> poligono p \<noteq> None \<and> parcela p \<noteq> None
           \<and> nombre_paraje p \<noteq> None \<and> calle p = calle s \<and> numero p = numero s
           \<and> antiguedad p = antiguedad s \<and> uso p = uso s"
    using c p by (cases t) (auto simp del: campos_tipo.simps dest!: campos_tipo_Urbano_Inr campos_tipo_Rustico_Inr)
qed

lemma resolver_rc_irrelevante:
  "resolver e (s\<lparr>rc := x\<rparr>) info projection = resolver e s info projection"
  by (simp add: resolver_def)

text \<open>The returns of the three private constructors.\<close>

lemma create_from_rc_Inr:
  assumes "ParcelaCatastral_create_from_rc e s r projection = Inr p"
  shows "\<exists>info ok. content (consulta_dnprc e r) = Decodificado info
           \<and> comprobar_errores info = Inr ok
           \<and> (\<not> truthy ok \<and> p = s
              \<or> truthy ok \<and> resolver e s info projection = Inr p)"
  using assms unfolding ParcelaCatastral_create_from_rc_def
  by (auto simp: bind_err_eq_Inr split: contenido.splits if_splits)

lemma create_from_parcel_Inr:
  assumes "ParcelaCatastral_create_from_parcel e s prov mun pol par projection = Inr p"
  shows "p = s \<or> (\<exists>nueva_rc. p = s\<lparr>rc := Some nueva_rc\<rparr>
           \<or> (\<exists>info. resolver e (s\<lparr>rc := Some nueva_rc\<rparr>) info projection = Inr p))"
  using assms unfolding ParcelaCatastral_create_from_parcel_def
  by (auto simp: bind_err_eq_Inr req1_def split: contenido.splits if_splits
           dest!: create_from_rc_Inr)

lemma create_from_address_nunca:
  "ParcelaCatastral_create_from_address e s prov mun tv nv num projection \<noteq> Inr p"
  unfolding ParcelaCatastral_create_from_address_def
  by (auto simp: bind_err_eq_Inr req1_def Let_def split: option.splits if_splits)

lemma init_resuelta:
  assumes "ParcelaCatastral_init e a = Inr p" and "tipo p \<noteq> None"
  shows "\<exists>s info. resolver e s info (arg_projection a) = Inr p"
proof -
  have v: "tipo (objeto_vacio :: 'a parcela_catastral) = None"
    by (simp add: objeto_vacio_def)
  show ?thesis
    using assms v unfolding ParcelaCatastral_init_def
    by (auto simp: create_from_address_nunca split: if_splits
             dest!: create_from_rc_Inr create_from_parcel_Inr)
qed

subsection \<open>Evaluations on the example service\<close>

lemma ejemplo_urbana:
  "ParcelaCatastral_init entorno_ejemplo (por_rc ''1541506VK4714B0002PK'') = Inr parcela_urbana"
  by code_simp

lemma ejemplo_rustica:
  "ParcelaCatastral_init entorno_ejemplo (por_rc ''28067A023001490000FJ'') = Inr parcela_rustica"
  by code_simp

subsection \<open>Surfaces\<close>

text \<open>
  Claim C5. A parcel that the constructor returns resolved (its \<open>tipo\<close> is set) has the
  list of its regions, the surface of every region is accepted by \<^verbatim>\<open>float\<close>, and
  \<open>superficie_construida\<close> and \<open>superficie\<close> are both the sum of these numbers, taken in
  the order of the regions. The statement holds for every arithmetic of the numbers.
\<close>

theorem superficie_suma_regiones:
  assumes "ParcelaCatastral_init e a = Inr p" and "tipo p \<noteq> None"
  shows "\<exists>regs fs. regiones p = Some regs
           \<and> map_err (\<lambda>region. float_de e (snd region)) regs = Inr fs
           \<and> superficie_construida p = Some (suma fs) \<and> superficie p = Some (suma fs)"
  using init_resuelta [OF assms] resolver_resuelta(2) by blast

text \<open>C5 on the urban parcel of the example: two regions of 30 and 9 square metres.\<close>

theorem superficie_suma_regiones_witness:
  "ParcelaCatastral_init entorno_ejemplo (por_rc ''1541506VK4714B0002PK'') = Inr parcela_urbana
   \<and> tipo parcela_urbana \<noteq> None
   \<and> regiones parcela_urbana = Some [(JStr ''VIVIENDA'', JStr ''30''), (JStr ''ALMACEN'', JStr ''9'')]
   \<and> superficie_construida parcela_urbana = Some (suma [30, 9])
   \<and> superficie parcela_urbana = Some (suma [30, 9])"
proof -
  have t: "tipo parcela_urbana \<noteq> None"
    by (simp add: parcela_urbana_def)
  have f: "map_err (\<lambda>region. float_de entorno_ejemplo (snd region))
             [(JStr ''VIVIENDA'', JStr ''30''), (JStr ''ALMACEN'', JStr ''9'')] = Inr [30, 9]"
    by code_simp
  from superficie_suma_regiones [OF ejemplo_urbana t] f
  have "superficie_construida parcela_urbana = Some (suma [30, 9])
      \<and> superficie parcela_urbana = Some (suma [30, 9])"
    by (auto simp: parcela_urbana_def)
  with ejemplo_urbana t show ?thesis
    by (simp add: parcela_urbana_def)
qed

subsection \<open>Edges and perimeter\<close>

lemma distancias_aristas_Some:
  assumes "geometria p = Some g" and "g \<noteq> []"
  shows "distancias_aristas e p =
           Inr (Some (map (\<lambda>idx. distancia e (g ! ((idx + length g - 1) mod length g)) (g ! idx))
                        [0..<length g]))"
proof -
  have "(if idx = 0 then length g - 1 else idx - 1) = (idx + length g - 1) mod length g"
    if "idx < length g" for idx
    using that by (cases idx) (simp_all add: mod_if)
  then have "map (\<lambda>idx. distancia e (g ! (if idx = 0 then length g - 1 else idx - 1)) (g ! idx))
               [0..<length g]
           = map (\<lambda>idx. distancia e (g ! ((idx + length g - 1) mod length g)) (g ! idx))
               [0..<length g]"
    by (intro map_cong) simp_all
  then show ?thesis
    using assms by (simp add: distancias_aristas_def atributo_def)
qed

text \<open>
  Claim C7. A resolved parcel always has its ring \<open>geometria\<close>. When the ring has
  \<open>L > 0\<close> points, \<open>distancias_aristas\<close> has \<open>L\<close> entries, entry \<open>i\<close> being the distance
  from point \<open>i - 1\<close> (the last point for \<open>i = 0\<close>) to point \<open>i\<close>, and \<open>perimetro\<close> is
  their sum; when the ring is empty both properties are \<^verbatim>\<open>None\<close>. The claim asks for
  \<open>L \<ge> 3\<close>; the code needs only a non-empty ring.
\<close>

theorem distancias_y_perimetro:
  assumes "ParcelaCatastral_init e a = Inr p" and "tipo p \<noteq> None"
  shows "\<exists>g. geometria p = Some g
         \<and> (g \<noteq> [] \<longrightarrow>
              (\<exists>ds. distancias_aristas e p = Inr (Some ds) \<and> length ds = length g
                 \<and> (\<forall>i<length g. ds ! i = distancia e (g ! ((i + length g - 1) mod length g)) (g ! i))
                 \<and> perimetro e p = Inr (Some (suma ds))))
         \<and> (g = [] \<longrightarrow> distancias_aristas e p = Inr None \<and> perimetro e p = Inr None)"
proof -
  from init_resuelta [OF assms] resolver_resuelta(3) obtain g where g: "geometria p = Some g"
    by blast
  have "distancias_aristas e p = Inr None \<and> perimetro e p = Inr None" if "g = []"
    using g that by (simp add: distancias_aristas_def perimetro_def atributo_def)
  moreover have "\<exists>ds. distancias_aristas e p = Inr (Some ds) \<and> length ds = length g
                 \<and> (\<forall>i<length g. ds ! i = distancia e (g ! ((i + length g - 1) mod length g)) (g ! i))
                 \<and> perimetro e p = Inr (Some (suma ds))" if "g \<noteq> []"
    using that by (simp add: distancias_aristas_Some [OF g that] perimetro_def)
  ultimately show ?thesis
    using g by blast
qed

text \<open>C7 on the urban parcel (a ring of four points) and on the rustic one (an empty
  ring).\<close>

theorem distancias_y_perimetro_witness:
  "ParcelaCatastral_init entorno_ejemplo (por_rc ''1541506VK4714B0002PK'') = Inr parcela_urbana
   \<and> tipo parcela_urbana \<noteq> None
   \<and> geometria parcela_urbana = Some [(''0'', ''0''), (''4'', ''0''), (''4'', ''6''), (''0'', ''6'')]
   \<and> distancias_aristas entorno_ejemplo parcela_urbana = Inr (Some [6, 4, 6, 4])
   \<and> perimetro entorno_ejemplo parcela_urbana = Inr (Some 20)
   \<and> ParcelaCatastral_init entorno_ejemplo (por_rc ''28067A023001490000FJ'') = Inr parcela_rustica
   \<and> tipo parcela_rustica \<noteq> None
   \<and> geometria parcela_rustica = Some []
   \<and> distancias_aristas entorno_ejemplo parcela_rustica = Inr None
   \<and> perimetro entorno_ejemplo parcela_rustica = Inr None"
proof -
  have tu: "tipo parcela_urbana \<noteq> None" and tr: "tipo parcela_rustica \<noteq> None"
    by (simp_all add: parcela_urbana_def parcela_rustica_def)
  have gu: "geometria parcela_urbana = Some [(''0'', ''0''), (''4'', ''0''), (''4'', ''6''), (''0'', ''6'')]"
    and gr: "geometria parcela_rustica = Some []"
    by (simp_all add: parcela_urbana_def parcela_rustica_def)
  have du: "distancias_aristas entorno_ejemplo parcela_urbana = Inr (Some [6, 4, 6, 4])"
    by code_simp
  have su: "suma [6, 4, 6, 4 :: int] = 20"
    by (simp add: suma_def)
  from distancias_y_perimetro [OF ejemplo_urbana tu] gu du su
  have pu: "perimetro entorno_ejemplo parcela_urbana = Inr (Some 20)"
    by auto
  from distancias_y_perimetro [OF ejemplo_rustica tr] gr
  have pr: "distancias_aristas entorno_ejemplo parcela_rustica = Inr None
          \<and> perimetro entorno_ejemplo parcela_rustica = Inr None"
    by auto
  show ?thesis
    using ejemplo_urbana ejemplo_rustica tu tr gu gr du pu pr by simp
qed

subsection \<open>The stored reference\<close>

text \<open>
  Claim C8, as amended. A parcel resolved from a reference \<open>r\<close> stores the reference
  joined from the components of the \<^verbatim>\<open>rc\<close> field of the record the service gave for
  \<open>r\<close>. Resolving that stored reference gives the very same parcel when it is not the
  empty string and the service answers it with the response it gave for \<open>r\<close>.
\<close>

theorem rc_canonica:
  assumes "truthy (arg_rc a)" and "ParcelaCatastral_init e a = Inr p" and "tipo p \<noteq> None"
  shows "\<exists>info r'. content (consulta_dnprc e (arg_rc a)) = Decodificado info
           \<and> rc_de_bico info ''consulta_dnprcResult'' = Inr r'
           \<and> rc p = Some r'
           \<and> (truthy r' \<and> consulta_dnprc e r' = consulta_dnprc e (arg_rc a) \<longrightarrow>
                 ParcelaCatastral_init e (a\<lparr>arg_rc := r'\<rparr>) = Inr p)"
proof -
  let ?s = "objeto_vacio\<lparr>rc := Some (arg_rc a)\<rparr> :: 'a parcela_catastral"
  have sis: "arg_projection a \<in> set (map JStr (listar_sistemas_referencia e))"
    and c: "ParcelaCatastral_create_from_rc e ?s (arg_rc a) (arg_projection a) = Inr p"
    using assms(1,2) unfolding ParcelaCatastral_init_def by (auto split: if_splits)
  have "tipo ?s = None"
    by (simp add: objeto_vacio_def)
  with create_from_rc_Inr [OF c] assms(3) obtain info ok where
    i: "content (consulta_dnprc e (arg_rc a)) = Decodificado info"
    and ok: "comprobar_errores info = Inr ok" "truthy ok"
    and r: "resolver e ?s info (arg_projection a) = Inr p"
    by auto
  from resolver_resuelta(1) [OF r] obtain r' where
    r': "rc_de_bico info ''consulta_dnprcResult'' = Inr r'" "rc p = Some r'"
    by blast
  have "ParcelaCatastral_init e (a\<lparr>arg_rc := r'\<rparr>) = Inr p"
    if t: "truthy r'" and eq: "consulta_dnprc e r' = consulta_dnprc e (arg_rc a)"
  proof -
    have "ParcelaCatastral_create_from_rc e (objeto_vacio\<lparr>rc := Some r'\<rparr>) r' (arg_projection a)
        = ParcelaCatastral_create_from_rc e ?s (arg_rc a) (arg_projection a)"
      unfolding ParcelaCatastral_create_from_rc_def eq i
      by (simp add: ok resolver_rc_irrelevante cong: if_cong)
    with c sis t show ?thesis
      by (simp add: ParcelaCatastral_init_def)
  qed
  with i r' show ?thesis
    by blast
qed

text \<open>C8 on the urban parcel of the example, whose record confirms the reference asked for.\<close>

theorem rc_canonica_witness:
  "truthy (arg_rc (por_rc ''1541506VK4714B0002PK''))
   \<and> ParcelaCatastral_init entorno_ejemplo (por_rc ''1541506VK4714B0002PK'') = Inr parcela_urbana
   \<and> tipo parcela_urbana \<noteq> None
   \<and> rc parcela_urbana = Some (JStr ''1541506VK4714B0002PK'')
   \<and> ParcelaCatastral_init entorno_ejemplo
        ((por_rc ''1541506VK4714B0002PK'')\<lparr>arg_rc := JStr ''1541506VK4714B0002PK''\<rparr>)
       = Inr parcela_urbana"
proof -
  have t: "truthy (arg_rc (por_rc ''1541506VK4714B0002PK''))"
    by (simp add: por_rc_def)
  have u: "tipo parcela_urbana \<noteq> None"
    by (simp add: parcela_urbana_def)
  have r: "rc parcela_urbana = Some (JStr ''1541506VK4714B0002PK'')"
    by (simp add: parcela_urbana_def)
  from rc_canonica [OF t ejemplo_urbana u] r
  have "ParcelaCatastral_init entorno_ejemplo
          ((por_rc ''1541506VK4714B0002PK'')\<lparr>arg_rc := JStr ''1541506VK4714B0002PK''\<rparr>)
        = Inr parcela_urbana"
    by (auto simp: por_rc_def)
  with t ejemplo_urbana u r show ?thesis
    by simp
qed

text \<open>
  Claim C8 as stated has no condition on the service. The example service answers
  \<^verbatim>\<open>ALIAS\<close> with an urban record whose \<^verbatim>\<open>rc\<close> field spells the reference of the rustic
  parcel: the parcel resolved from \<^verbatim>\<open>ALIAS\<close> stores that reference and is urban, and
  resolving that reference gives a rustic parcel.
\<close>

theorem rc_canonica_otra_ficha:
  "ParcelaCatastral_init entorno_ejemplo (por_rc ''ALIAS'')
     = Inr (parcela_urbana\<lparr>rc := Some (JStr ''28067A023001490000FJ''), geometria := Some []\<rparr>)
   \<and> tipo (parcela_urbana\<lparr>rc := Some (JStr ''28067A023001490000FJ''), geometria := Some []\<rparr>)
     = Some Urbano
   \<and> ParcelaCatastral_init entorno_ejemplo (por_rc ''28067A023001490000FJ'') = Inr parcela_rustica
   \<and> tipo parcela_rustica = Some Rustico"
  by code_simp

subsection \<open>The two groups of attributes\<close>

text \<open>Looked up by reference, a resolved parcel has the attributes of its own variant and
  none of the other.\<close>

lemma grupos_por_rc:
  assumes "truthy (arg_rc a)" and "ParcelaCatastral_init e a = Inr p"
  shows "tipo p = Some Urbano \<longrightarrow>
           calle p \<noteq> None \<and> numero p \<noteq> None \<and> antiguedad p \<noteq> None \<and> uso p \<noteq> None
           \<and> poligono p = None \<and> parcela p = None \<and> nombre_paraje p = None"
    and "tipo p = Some Rustico \<longrightarrow>
           poligono p \<noteq> None \<and> parcela p \<noteq> None \<and> nombre_paraje p \<noteq> None
           \<and> calle p = None \<and> numero p = None \<and> antiguedad p = None \<and> uso p = None"
proof -
  let ?s = "objeto_vacio\<lparr>rc := Some (arg_rc a)\<rparr> :: 'a parcela_catastral"
  have c: "ParcelaCatastral_create_from_rc e ?s (arg_rc a) (arg_projection a) = Inr p"
    using assms unfolding ParcelaCatastral_init_def by (auto split: if_splits)
  have v: "tipo ?s = None" "poligono ?s = None" "parcela ?s = None" "nombre_paraje ?s = None"
    "calle ?s = None" "numero ?s = None" "antiguedad ?s = None" "uso ?s = None"
    by (simp_all add: objeto_vacio_def)
  from create_from_rc_Inr [OF c] consider "p = ?s"
    | info where "resolver e ?s info (arg_projection a) = Inr p"
    by blast
  then have "(tipo p = Some Urbano \<longrightarrow>
           calle p \<noteq> None \<and> numero p \<noteq> None \<and> antiguedad p \<noteq> None \<and> uso p \<noteq> None
           \<and> poligono p = None \<and> parcela p = None \<and> nombre_paraje p = None)
      \<and> (tipo p = Some Rustico \<longrightarrow>
           poligono p \<noteq> None \<and> parcela p \<noteq> None \<and> nombre_paraje p \<noteq> None
           \<and> calle p = None \<and> numero p = None \<and> antiguedad p = None \<and> uso p = None)"
  proof cases
    case 1
    then show ?thesis using v by simp
  next
    case 2
    from resolver_resuelta(4) [OF 2] show ?thesis
      unfolding v by auto
  qed
  then show "tipo p = Some Urbano \<longrightarrow>
           calle p \<noteq> None \<and> numero p \<noteq> None \<and> antiguedad p \<noteq> None \<and> uso p \<noteq> None
           \<and> poligono p = None \<and> parcela p = None \<and> nombre_paraje p = None"
    and "tipo p = Some Rustico \<longrightarrow>
           poligono p \<noteq> None \<and> parcela p \<noteq> None \<and> nombre_paraje p \<noteq> None
           \<and> calle p = None \<and> numero p = None \<and> antiguedad p = None \<and> uso p = None"
    by blast+
qed

text \<open>
  Claim C6 (the code departs from it). \<^verbatim>\<open>__init__\<close> stores the arguments
  \<^verbatim>\<open>poligono\<close> and \<^verbatim>\<open>parcela\<close> of a lookup by polygon and parcel before it resolves
  anything. The example service resolves polygon 1, parcel 1 to the urban record: the
  parcel returned is the urban parcel with the two rustic attributes set as well.
\<close>

theorem grupos_por_parcela_urbana:
  "ParcelaCatastral_init entorno_ejemplo (por_parcela ''1'' ''1'')
     = Inr (parcela_urbana\<lparr>poligono := Some (JStr ''1''), parcela := Some (JStr ''1'')\<rparr>)
   \<and> tipo parcela_urbana = Some Urbano \<and> calle parcela_urbana = Some (JStr ''CL MAYOR'')"
  by code_simp

subsection \<open>The empty envelope\<close>

text \<open>
  Claim C3 (the code departs from it). The example service answers \<^verbatim>\<open>VACIA\<close> with the
  document \<^verbatim>\<open>{}\<close>. \<^verbatim>\<open>comprobar_errores\<close> returns \<^verbatim>\<open>None\<close> on it, the \<^verbatim>\<open>if\<close> of
  \<^verbatim>\<open>__create_from_rc\<close> has no \<^verbatim>\<open>else\<close>, and both constructors return an object with
  nothing but the reference the caller gave: no \<open>tipo\<close>, no regions, no \<open>parcelas\<close>.
\<close>

theorem objeto_parcial:
  "ParcelaCatastral_init entorno_ejemplo (por_rc ''VACIA'')
     = Inr (objeto_vacio\<lparr>rc := Some (JStr ''VACIA'')\<rparr>)
   \<and> MetaParcela_init entorno_ejemplo (por_rc ''VACIA'')
     = Inr (meta_vacia\<lparr>mp_rc := Some (JStr ''VACIA'')\<rparr>)"
  by code_simp

subsection \<open>The ambiguity counter\<close>

text \<open>Looked up by reference or by polygon and parcel, a response that passes the error
  check with a counter above one is refused, and the resolution goes on otherwise.\<close>

lemma create_from_rc_cudnp:
  assumes "content (consulta_dnprc e r) = Decodificado info"
    and "comprobar_errores info = Inr ok" and "truthy ok"
    and "leer_cudnp info ''consulta_dnprcResult'' = Inr (JInt n)"
  shows "ParcelaCatastral_create_from_rc e s r projection =
           (if n > 1 then Inl (ErrorServidorCatastro VariasReferencias)
            else resolver e s info projection)"
  using assms by (simp add: ParcelaCatastral_create_from_rc_def)

lemma create_from_parcel_cudnp:
  assumes "content (consulta_dnppp e prov mun pol par) = Decodificado info"
    and "comprobar_errores info = Inr ok" and "truthy ok"
    and "leer_cudnp info ''consulta_dnpppResult'' = Inr (JInt n)"
  shows "ParcelaCatastral_create_from_parcel e s prov mun pol par projection =
           (if n > 1 then Inl (ErrorServidorCatastro VariasReferencias)
            else bind_err (rc_de_bico info ''consulta_dnpppResult'') (\<lambda>nueva_rc.
                   ParcelaCatastral_create_from_rc e (s\<lparr>rc := Some nueva_rc\<rparr>)
                     nueva_rc projection))"
  using assms by (simp add: ParcelaCatastral_create_from_parcel_def)

text \<open>Looked up by address, a response with status 200 that passes the error check leads
  to the read of \<^verbatim>\<open>req1\<close>, whatever it holds.\<close>

lemma create_from_address_correcta:
  assumes "calle_de e prov mun tv nv = Inr (Some ic)"
    and "status_code (consulta_dnploc e (ic_provincia ic) (ic_municipio ic) (ic_tipo_via ic)
           (ic_calle ic) num) = 200"
    and "content (consulta_dnploc e (ic_provincia ic) (ic_municipio ic) (ic_tipo_via ic)
           (ic_calle ic) num) = Decodificado j"
    and "comprobar_errores j = Inr ok" and "truthy ok"
  shows "ParcelaCatastral_create_from_address e s prov mun tv nv num projection = Inl NameError"
  using assms by (simp add: ParcelaCatastral_create_from_address_def req1_def)

text \<open>
  Claim C1 (the code departs from it). The example service answers house number 2 with a
  document that passes the error check and has the counter 2. The lookup by address does
  not reach the counter: it raises \<^verbatim>\<open>NameError\<close>, not the error of an ambiguous
  reference.
\<close>

theorem ambigua_por_direccion:
  "bind_err (json_loads (content (consulta_dnploc entorno_ejemplo (JStr ''MADRID'')
      (JStr ''MADRID'') (JStr ''CL'') (JStr ''MAYOR'') (JStr ''2''))))
     (\<lambda>j. bind_err (comprobar_errores j) (\<lambda>ok. leer_cudnp j ''consulta_dnplocResult''))
     = Inr (JInt 2)
   \<and> ParcelaCatastral_init entorno_ejemplo (por_direccion ''2'') = Inl NameError"
  by code_simp

subsection \<open>The two shapes of an address match\<close>

text \<open>
  Claim C9 (the code departs from it). The example service answers house number 1 with
  the direct shape (\<^verbatim>\<open>bico\<close>) and house number 3 with both shapes and no counter; both
  documents pass the error check. Neither lookup extracts a reference or reaches
  \<^verbatim>\<open>__create_from_rc\<close>: both raise \<^verbatim>\<open>NameError\<close>.
\<close>

theorem formas_por_direccion:
  "bind_err (json_loads (content (consulta_dnploc entorno_ejemplo (JStr ''MADRID'')
      (JStr ''MADRID'') (JStr ''CL'') (JStr ''MAYOR'') (JStr ''3'')))) comprobar_errores
     = Inr (JBool True)
   \<and> ParcelaCatastral_init entorno_ejemplo (por_direccion ''3'') = Inl NameError
   \<and> bind_err (json_loads (content (consulta_dnploc entorno_ejemplo (JStr ''MADRID'')
      (JStr ''MADRID'') (JStr ''CL'') (JStr ''MAYOR'') (JStr ''1'')))) comprobar_errores
     = Inr (JBool True)
   \<and> ParcelaCatastral_init entorno_ejemplo (por_direccion ''1'') = Inl NameError"
  by code_simp

subsection \<open>The size of a collection\<close>

lemma resolver_cada_Inr:
  assumes "resolver_cada e info clave idxs = Inr ps"
  shows "length ps = length idxs
       \<and> (\<forall>i<length idxs. \<exists>r. rc_de_lrcdnp info clave (idxs ! i) = Inr r
                               \<and> ParcelaCatastral_rc e r = Inr (ps ! i))"
  using assms
proof (induction idxs arbitrary: ps)
  case Nil
  then show ?case by simp
next
  case (Cons idx idxs)
  from Cons.prems obtain r p ps' where
    r: "rc_de_lrcdnp info clave idx = Inr r" and p: "ParcelaCatastral_rc e r = Inr p"
    and ps': "resolver_cada e info clave idxs = Inr ps'" and eq: "ps = p # ps'"
    by (auto split: sum.splits)
  from Cons.IH [OF ps'] r p eq show ?case
    by (auto simp: nth_Cons split: nat.splits)
qed

text \<open>Looked up by polygon and parcel, a collection whose response has the counter \<open>n\<close>
  holds \<open>n\<close> parcels, the one at place \<open>i\<close> built from reference \<open>i\<close> of the umbrella
  list. The lookup by address runs the same loop.\<close>

lemma meta_por_parcela_cardinal:
  assumes "MetaParcela_create_from_parcel e s prov mun pol par = Inr m"
    and "content (consulta_dnppp e prov mun pol par) = Decodificado info"
    and "comprobar_errores info = Inr ok" and "truthy ok"
    and "leer_cudnp info ''consulta_dnpppResult'' = Inr (JInt n)"
  shows "\<exists>ps. parcelas m = Some ps \<and> length ps = nat n
           \<and> (\<forall>i<nat n. \<exists>r. rc_de_lrcdnp info ''consulta_dnpppResult'' i = Inr r
                               \<and> ParcelaCatastral_rc e r = Inr (ps ! i))"
proof -
  from assms obtain ps where
    ps: "resolver_cada e info ''consulta_dnpppResult'' [0..<nat n] = Inr ps"
    and m: "m = s\<lparr>parcelas := Some ps\<rparr>"
    by (auto simp: MetaParcela_create_from_parcel_def bind_err_eq_Inr)
  from resolver_cada_Inr [OF ps] m show ?thesis
    by auto
qed

lemma meta_por_parcela_ejemplo:
  "bind_err (MetaParcela_init entorno_ejemplo (por_parcela ''7'' ''1'')) (\<lambda>m. Inr (parcelas m))
     = Inr (Some [parcela_urbana, parcela_rustica])"
  by code_simp

text \<open>
  Claim C2 (the code departs from it). The example service answers \<^verbatim>\<open>META\<close> with the
  counter 2 and an umbrella list of two references. Looked up by reference, the
  collection holds one parcel, the one of the last reference of the list.
\<close>

theorem meta_por_rc_una_parcela:
  "bind_err (json_loads (content (consulta_dnprc entorno_ejemplo (JStr ''META''))))
     (\<lambda>j. leer_cudnp j ''consulta_dnprcResult'') = Inr (JInt 2)
   \<and> MetaParcela_init entorno_ejemplo (por_rc ''META'')
     = Inr (meta_vacia\<lparr>mp_rc := Some (JStr ''META''), parcelas := Some [parcela_rustica]\<rparr>)"
  by code_simp

subsection \<open>The reference system\<close>




end
